theory Spec2Isabelle
  imports Complex_Main "HOL-Library.Word"
begin

unbundle bit_operations_syntax

section \<open>Delta2D predictor (delta2d.c)\<close>

text \<open>
  Every function of delta2d.c has the same shape: if \<open>length0 \<le> 1\<close> it returns at once,
  otherwise an outer loop over the rows \<open>d0\<close> (ascending from 1 for decode, descending
  from \<open>length0 - 1\<close> to 1 for encode) runs an inner loop over \<open>d1 = 0 .. length1 - 1\<close>
  that performs
  \<^verbatim>\<open>chunkBuffer[d0*length1 + d1] op= chunkBuffer[(d0-1)*length1 + d1]\<close>.
  The buffer is a list of machine words of the element type at which the C code
  accesses it; \<open>+\<close> and \<open>-\<close> on words wrap modulo \<open>2 ^ W\<close>.
\<close>

type_synonym int8_t = "8 word"
type_synonym int16_t = "16 word"
type_synonym int32_t = "32 word"
type_synonym int64_t = "64 word"
type_synonym uint64_t = "64 word"
type_synonym uint8_t = "8 word"

text \<open>The loop body, and the inner loop over \<open>d1\<close> for one row \<open>d0\<close>.\<close>

definition delta2d_step :: "('a \<Rightarrow> 'a \<Rightarrow> 'a) \<Rightarrow> nat \<Rightarrow> nat \<Rightarrow> nat \<Rightarrow> 'a list \<Rightarrow> 'a list" where
  "delta2d_step f length1 d0 d1 chunkBuffer =
     chunkBuffer[d0 * length1 + d1 :=
       f (chunkBuffer ! (d0 * length1 + d1)) (chunkBuffer ! ((d0 - 1) * length1 + d1))]"

definition delta2d_row :: "('a \<Rightarrow> 'a \<Rightarrow> 'a) \<Rightarrow> nat \<Rightarrow> nat \<Rightarrow> 'a list \<Rightarrow> 'a list" where
  "delta2d_row f length1 d0 chunkBuffer = fold (delta2d_step f length1 d0) [0..<length1] chunkBuffer"

text \<open>\<^verbatim>\<open>for (size_t d0 = 1; d0 < length0; d0++)\<close>\<close>

definition delta2d_decode_loop :: "('a \<Rightarrow> 'a \<Rightarrow> 'a) \<Rightarrow> nat \<Rightarrow> nat \<Rightarrow> 'a list \<Rightarrow> 'a list" where
  "delta2d_decode_loop f length0 length1 chunkBuffer =
     (if length0 \<le> 1 then chunkBuffer
      else fold (delta2d_row f length1) [1..<length0] chunkBuffer)"

text \<open>\<^verbatim>\<open>for (size_t d0 = length0-1; d0 >= 1; d0--)\<close>\<close>

definition delta2d_encode_loop :: "('a \<Rightarrow> 'a \<Rightarrow> 'a) \<Rightarrow> nat \<Rightarrow> nat \<Rightarrow> 'a list \<Rightarrow> 'a list" where
  "delta2d_encode_loop f length0 length1 chunkBuffer =
     (if length0 \<le> 1 then chunkBuffer
      else fold (delta2d_row f length1) (rev [1..<length0]) chunkBuffer)"

definition delta2d_decode8 :: "nat \<Rightarrow> nat \<Rightarrow> int8_t list \<Rightarrow> int8_t list" where
  "delta2d_decode8 = delta2d_decode_loop (+)"

definition delta2d_encode8 :: "nat \<Rightarrow> nat \<Rightarrow> int8_t list \<Rightarrow> int8_t list" where
  "delta2d_encode8 = delta2d_encode_loop (-)"

definition delta2d_decode16 :: "nat \<Rightarrow> nat \<Rightarrow> int16_t list \<Rightarrow> int16_t list" where
  "delta2d_decode16 = delta2d_decode_loop (+)"

definition delta2d_encode16 :: "nat \<Rightarrow> nat \<Rightarrow> int16_t list \<Rightarrow> int16_t list" where
  "delta2d_encode16 = delta2d_encode_loop (-)"

definition delta2d_decode32 :: "nat \<Rightarrow> nat \<Rightarrow> int32_t list \<Rightarrow> int32_t list" where
  "delta2d_decode32 = delta2d_decode_loop (+)"

definition delta2d_encode32 :: "nat \<Rightarrow> nat \<Rightarrow> int32_t list \<Rightarrow> int32_t list" where
  "delta2d_encode32 = delta2d_encode_loop (-)"

definition delta2d_decode64 :: "nat \<Rightarrow> nat \<Rightarrow> int64_t list \<Rightarrow> int64_t list" where
  "delta2d_decode64 = delta2d_decode_loop (+)"

definition delta2d_encode64 :: "nat \<Rightarrow> nat \<Rightarrow> int64_t list \<Rightarrow> int64_t list" where
  "delta2d_encode64 = delta2d_encode_loop (-)"

text \<open>
  The XOR variants cast the buffer to \<^verbatim>\<open>int*\<close> and XOR 32-bit words. For
  \<^verbatim>\<open>float*\<close> the buffer is given here as the list of the floats' 32-bit patterns.
\<close>

definition delta2d_decode_xor :: "nat \<Rightarrow> nat \<Rightarrow> int32_t list \<Rightarrow> int32_t list" where
  "delta2d_decode_xor = delta2d_decode_loop (XOR)"

definition delta2d_encode_xor :: "nat \<Rightarrow> nat \<Rightarrow> int32_t list \<Rightarrow> int32_t list" where
  "delta2d_encode_xor = delta2d_encode_loop (XOR)"

text \<open>
  The double variants take a \<^verbatim>\<open>double*\<close> and cast it to \<^verbatim>\<open>int*\<close> as well
  (\<^verbatim>\<open>int* chunkBufferInt = (int*)chunkBuffer\<close>), so the loops index 32-bit words. A buffer
  of doubles is the list of their 64-bit patterns; on the little-endian targets of the
  library the double at index \<open>k\<close> occupies the 32-bit words \<open>2k\<close> (low half) and
  \<open>2k + 1\<close> (high half).
\<close>

definition int_view_of_double :: "int64_t \<Rightarrow> int32_t list" where
  "int_view_of_double w = [ucast w, ucast (drop_bit 32 w)]"

definition int_view :: "int64_t list \<Rightarrow> int32_t list" where
  "int_view ws = concat (map int_view_of_double ws)"

definition double_of_ints :: "int32_t \<Rightarrow> int32_t \<Rightarrow> int64_t" where
  "double_of_ints lo hi = ucast lo OR push_bit 32 (ucast hi)"

fun double_view :: "int32_t list \<Rightarrow> int64_t list" where
  "double_view (lo # hi # rest) = double_of_ints lo hi # double_view rest"
| "double_view _ = []"

definition delta2d_decode_xor_double :: "nat \<Rightarrow> nat \<Rightarrow> int64_t list \<Rightarrow> int64_t list" where
  "delta2d_decode_xor_double length0 length1 chunkBuffer =
     double_view (delta2d_decode_loop (XOR) length0 length1 (int_view chunkBuffer))"

definition delta2d_encode_xor_double :: "nat \<Rightarrow> nat \<Rightarrow> int64_t list \<Rightarrow> int64_t list" where
  "delta2d_encode_xor_double length0 length1 chunkBuffer =
     double_view (delta2d_encode_loop (XOR) length0 length1 (int_view chunkBuffer))"


section \<open>Floating-point values (C \<^verbatim>\<open>float\<close> and \<^verbatim>\<open>double\<close>)\<close>

text \<open>
  A C floating-point value is a NaN, an infinity with its sign (\<open>True\<close> is negative),
  the negative zero, or a finite rational (\<open>FFin 0\<close> is the positive zero). Arithmetic is
  IEEE 754 arithmetic with round-to-nearest, ties-to-even, in binary32 for \<^verbatim>\<open>float\<close>
  and binary64 for \<^verbatim>\<open>double\<close>: the exact rational result is rounded to the format.
\<close>

datatype cfloat = FNaN | FInf bool | FNegZero | FFin rat

text \<open>A format: precision in bits, minimal and maximal exponent.\<close>

type_synonym fformat = "nat \<times> int \<times> int"

definition binary32 :: fformat where
  "binary32 = (24, - 126, 127)"

definition binary64 :: fformat where
  "binary64 = (53, - 1022, 1023)"

definition pow2 :: "int \<Rightarrow> rat" where
  "pow2 e = (if 0 \<le> e then 2 ^ nat e else 1 / 2 ^ nat (- e))"

text \<open>The number of binary digits of a positive integer.\<close>

function bit_length :: "int \<Rightarrow> int" where
  "bit_length a = (if a \<le> 0 then 0 else 1 + bit_length (a div 2))"
  by pat_completeness auto
termination
  by (relation "measure nat") auto

text \<open>\<open>\<lfloor>log\<^sub>2 r\<rfloor>\<close> for a positive rational, from the bit lengths of numerator and denominator.\<close>

definition floor_log2 :: "rat \<Rightarrow> int" where
  "floor_log2 r =
     (let (a, b) = quotient_of r;
          d = bit_length a - bit_length b
      in if pow2 d \<le> r then d else d - 1)"

definition round_half_even :: "rat \<Rightarrow> int" where
  "round_half_even x =
     (let f = \<lfloor>x\<rfloor>; d = x - of_int f
      in if d < 1 / 2 then f else if 1 / 2 < d then f + 1 else if even f then f else f + 1)"

definition fzero :: "bool \<Rightarrow> cfloat" where
  "fzero s = (if s then FNegZero else FFin 0)"

text \<open>
  Rounding the exact result \<open>r\<close> to a format; \<open>s\<close> is the sign of the zero that an
  exactly zero result gets.
\<close>

definition fround :: "fformat \<Rightarrow> bool \<Rightarrow> rat \<Rightarrow> cfloat" where
  "fround fmt s r =
     (if r = 0 then fzero s
      else let (p, emin, emax) = fmt;
               e = max (floor_log2 \<bar>r\<bar>) emin;
               q = e - (int p - 1);
               v = of_int (round_half_even (\<bar>r\<bar> / pow2 q)) * pow2 q
           in if pow2 (emax + 1) \<le> v then FInf (r < 0)
              else if v = 0 then fzero (r < 0)
              else FFin (if r < 0 then - v else v))"

definition isnan :: "cfloat \<Rightarrow> bool" where
  "isnan a = (a = FNaN)"

definition NAN :: cfloat where
  "NAN = FNaN"

fun isinf :: "cfloat \<Rightarrow> bool" where
  "isinf (FInf s) = True"
| "isinf _ = False"

fun valof :: "cfloat \<Rightarrow> rat" where
  "valof (FFin x) = x"
| "valof _ = 0"

fun fsign :: "cfloat \<Rightarrow> bool" where
  "fsign (FInf s) = s"
| "fsign FNegZero = True"
| "fsign (FFin x) = (x < 0)"
| "fsign FNaN = False"

definition iszero :: "cfloat \<Rightarrow> bool" where
  "iszero a = (a = FNegZero \<or> a = FFin 0)"

definition fmul :: "fformat \<Rightarrow> cfloat \<Rightarrow> cfloat \<Rightarrow> cfloat" where
  "fmul fmt a b =
     (if isnan a \<or> isnan b then FNaN
      else if isinf a \<or> isinf b
        then (if iszero a \<or> iszero b then FNaN else FInf (fsign a \<noteq> fsign b))
      else fround fmt (fsign a \<noteq> fsign b) (valof a * valof b))"

definition fadd :: "fformat \<Rightarrow> cfloat \<Rightarrow> cfloat \<Rightarrow> cfloat" where
  "fadd fmt a b =
     (if isnan a \<or> isnan b then FNaN
      else if isinf a
        then (if isinf b \<and> fsign a \<noteq> fsign b then FNaN else a)
      else if isinf b then b
      else fround fmt (fsign a \<and> fsign b) (valof a + valof b))"

fun fneg :: "cfloat \<Rightarrow> cfloat" where
  "fneg FNaN = FNaN"
| "fneg (FInf s) = FInf (\<not> s)"
| "fneg FNegZero = FFin 0"
| "fneg (FFin x) = (if x = 0 then FNegZero else FFin (- x))"

definition fsub :: "fformat \<Rightarrow> cfloat \<Rightarrow> cfloat \<Rightarrow> cfloat" where
  "fsub fmt a b = fadd fmt a (fneg b)"

definition fdiv :: "fformat \<Rightarrow> cfloat \<Rightarrow> cfloat \<Rightarrow> cfloat" where
  "fdiv fmt a b =
     (if isnan a \<or> isnan b then FNaN
      else if isinf a then (if isinf b then FNaN else FInf (fsign a \<noteq> fsign b))
      else if isinf b then fzero (fsign a \<noteq> fsign b)
      else if iszero b then (if iszero a then FNaN else FInf (fsign a \<noteq> fsign b))
      else fround fmt (fsign a \<noteq> fsign b) (valof a / valof b))"

text \<open>The comparison \<^verbatim>\<open>a < b\<close>; it is false when an operand is a NaN.\<close>

fun flt :: "cfloat \<Rightarrow> cfloat \<Rightarrow> bool" where
  "flt FNaN _ = False"
| "flt _ FNaN = False"
| "flt (FInf s) (FInf t) = (s \<and> \<not> t)"
| "flt (FInf s) _ = s"
| "flt _ (FInf t) = (\<not> t)"
| "flt a b = (valof a < valof b)"

text \<open>
  \<^verbatim>\<open>fminf\<close>/\<^verbatim>\<open>fmin\<close> and \<^verbatim>\<open>fmaxf\<close>/\<^verbatim>\<open>fmax\<close>: a NaN operand is treated as missing data, the
  other operand is returned.
\<close>

definition c_fmin :: "cfloat \<Rightarrow> cfloat \<Rightarrow> cfloat" where
  "c_fmin a b = (if isnan a then b else if isnan b then a else if flt b a then b else a)"

definition c_fmax :: "cfloat \<Rightarrow> cfloat \<Rightarrow> cfloat" where
  "c_fmax a b = (if isnan a then b else if isnan b then a else if flt a b then b else a)"

text \<open>\<^verbatim>\<open>roundf\<close>/\<^verbatim>\<open>round\<close>: to the nearest integer, halfway cases away from zero.\<close>

fun c_round :: "cfloat \<Rightarrow> cfloat" where
  "c_round (FFin x) =
     (let m = \<lfloor>\<bar>x\<bar> + 1 / 2\<rfloor>
      in if x < 0 then (if m = 0 then FNegZero else FFin (- of_int m)) else FFin (of_int m))"
| "c_round a = a"

text \<open>
  Conversion of a floating-point value to a signed integer type of \<open>n\<close> bits: the value
  is truncated toward zero; if the result is not representable (also for NaN and
  infinities) the behaviour of the C program is undefined, which is \<open>None\<close> here.
\<close>

fun float_to_int :: "nat \<Rightarrow> cfloat \<Rightarrow> int option" where
  "float_to_int n (FFin x) =
     (let t = (if x < 0 then - \<lfloor>- x\<rfloor> else \<lfloor>x\<rfloor>)
      in if - (2 ^ (n - 1)) \<le> t \<and> t < 2 ^ (n - 1) then Some t else None)"
| "float_to_int n FNegZero = Some 0"
| "float_to_int n _ = None"

definition float_to_word :: "cfloat \<Rightarrow> 'a::len word option" where
  "float_to_word a = map_option word_of_int (float_to_int LENGTH('a) a)"

text \<open>Conversion of an integer to \<^verbatim>\<open>float\<close> or \<^verbatim>\<open>double\<close> rounds to the format.\<close>

definition int_to_float :: "fformat \<Rightarrow> int \<Rightarrow> cfloat" where
  "int_to_float fmt i = fround fmt False (of_int i)"

text \<open>
  The bit patterns: a binary32 value has 1 sign bit, 8 exponent bits and 23 fraction
  bits, a binary64 value has 1, 11 and 52.
\<close>

definition decode_float :: "32 word \<Rightarrow> cfloat" where
  "decode_float w =
     (let s = bit w 31; e = uint (take_bit 8 (drop_bit 23 w)); f = uint (take_bit 23 w)
      in if e = 255 then (if f = 0 then FInf s else FNaN)
         else if e = 0 then
           (if f = 0 then fzero s
            else FFin ((if s then - 1 else 1) * of_int f * pow2 (- 149)))
         else FFin ((if s then - 1 else 1) * of_int (2 ^ 23 + f) * pow2 (e - 150)))"

definition decode_double :: "64 word \<Rightarrow> cfloat" where
  "decode_double w =
     (let s = bit w 63; e = uint (take_bit 11 (drop_bit 52 w)); f = uint (take_bit 52 w)
      in if e = 2047 then (if f = 0 then FInf s else FNaN)
         else if e = 0 then
           (if f = 0 then fzero s
            else FFin ((if s then - 1 else 1) * of_int f * pow2 (- 1074)))
         else FFin ((if s then - 1 else 1) * of_int (2 ^ 52 + f) * pow2 (e - 1075)))"

text \<open>
  \<^verbatim>\<open>log10f\<close> and \<^verbatim>\<open>powf\<close> belong to the C library; their results are not fixed by the
  repository, so the functions that call them take them as parameters.
\<close>

record libm =
  log10f :: "cfloat \<Rightarrow> cfloat"
  powf :: "cfloat \<Rightarrow> cfloat \<Rightarrow> cfloat"

section \<open>Codec configuration (om_common.c, om_encoder.c)\<close>

text \<open>
  Modelled from the spec: the enumerations \<^verbatim>\<open>OmDataType_t\<close>, \<^verbatim>\<open>OmCompression_t\<close> and
  \<^verbatim>\<open>OmError_t\<close> are declared in om_common.h, which is not among the sources; the spec
  lists their members and values. A C enumeration object can hold any integer, so data
  types and compressions are numbers, and a \<^verbatim>\<open>switch\<close> is a chain of comparisons.
\<close>

type_synonym OmDataType_t = nat
type_synonym OmCompression_t = nat

abbreviation (input) DATA_TYPE_NONE :: OmDataType_t where "DATA_TYPE_NONE \<equiv> 0"
abbreviation (input) DATA_TYPE_INT8 :: OmDataType_t where "DATA_TYPE_INT8 \<equiv> 1"
abbreviation (input) DATA_TYPE_UINT8 :: OmDataType_t where "DATA_TYPE_UINT8 \<equiv> 2"
abbreviation (input) DATA_TYPE_INT16 :: OmDataType_t where "DATA_TYPE_INT16 \<equiv> 3"
abbreviation (input) DATA_TYPE_UINT16 :: OmDataType_t where "DATA_TYPE_UINT16 \<equiv> 4"
abbreviation (input) DATA_TYPE_INT32 :: OmDataType_t where "DATA_TYPE_INT32 \<equiv> 5"
abbreviation (input) DATA_TYPE_UINT32 :: OmDataType_t where "DATA_TYPE_UINT32 \<equiv> 6"
abbreviation (input) DATA_TYPE_INT64 :: OmDataType_t where "DATA_TYPE_INT64 \<equiv> 7"
abbreviation (input) DATA_TYPE_UINT64 :: OmDataType_t where "DATA_TYPE_UINT64 \<equiv> 8"
abbreviation (input) DATA_TYPE_FLOAT :: OmDataType_t where "DATA_TYPE_FLOAT \<equiv> 9"
abbreviation (input) DATA_TYPE_DOUBLE :: OmDataType_t where "DATA_TYPE_DOUBLE \<equiv> 10"
abbreviation (input) DATA_TYPE_STRING :: OmDataType_t where "DATA_TYPE_STRING \<equiv> 11"
abbreviation (input) DATA_TYPE_STRING_ARRAY :: OmDataType_t where "DATA_TYPE_STRING_ARRAY \<equiv> 12"
abbreviation (input) DATA_TYPE_INT8_ARRAY :: OmDataType_t where "DATA_TYPE_INT8_ARRAY \<equiv> 13"
abbreviation (input) DATA_TYPE_UINT8_ARRAY :: OmDataType_t where "DATA_TYPE_UINT8_ARRAY \<equiv> 14"
abbreviation (input) DATA_TYPE_INT16_ARRAY :: OmDataType_t where "DATA_TYPE_INT16_ARRAY \<equiv> 15"
abbreviation (input) DATA_TYPE_UINT16_ARRAY :: OmDataType_t where "DATA_TYPE_UINT16_ARRAY \<equiv> 16"
abbreviation (input) DATA_TYPE_INT32_ARRAY :: OmDataType_t where "DATA_TYPE_INT32_ARRAY \<equiv> 17"
abbreviation (input) DATA_TYPE_UINT32_ARRAY :: OmDataType_t where "DATA_TYPE_UINT32_ARRAY \<equiv> 18"
abbreviation (input) DATA_TYPE_INT64_ARRAY :: OmDataType_t where "DATA_TYPE_INT64_ARRAY \<equiv> 19"
abbreviation (input) DATA_TYPE_UINT64_ARRAY :: OmDataType_t where "DATA_TYPE_UINT64_ARRAY \<equiv> 20"
abbreviation (input) DATA_TYPE_FLOAT_ARRAY :: OmDataType_t where "DATA_TYPE_FLOAT_ARRAY \<equiv> 21"
abbreviation (input) DATA_TYPE_DOUBLE_ARRAY :: OmDataType_t where "DATA_TYPE_DOUBLE_ARRAY \<equiv> 22"

abbreviation (input) COMPRESSION_PFOR_DELTA2D_INT16 :: OmCompression_t where
  "COMPRESSION_PFOR_DELTA2D_INT16 \<equiv> 0"
abbreviation (input) COMPRESSION_FPX_XOR2D :: OmCompression_t where
  "COMPRESSION_FPX_XOR2D \<equiv> 1"
abbreviation (input) COMPRESSION_PFOR_DELTA2D :: OmCompression_t where
  "COMPRESSION_PFOR_DELTA2D \<equiv> 2"
abbreviation (input) COMPRESSION_PFOR_DELTA2D_INT16_LOGARITHMIC :: OmCompression_t where
  "COMPRESSION_PFOR_DELTA2D_INT16_LOGARITHMIC \<equiv> 3"

datatype OmError_t =
    ERROR_OK
  | ERROR_INVALID_COMPRESSION_TYPE
  | ERROR_INVALID_DATA_TYPE
  | ERROR_OUT_OF_BOUND_READ
  | ERROR_NOT_AN_OM_FILE
  | ERROR_DEFLATED_SIZE_MISMATCH

text \<open>
  The three callbacks of the encoder are function pointers; a pointer is the name of
  the function it points to. The entropy coders (\<^verbatim>\<open>p4nzenc8\<close> and the others of vp4.h,
  \<^verbatim>\<open>fpxenc32\<close>/\<^verbatim>\<open>fpxenc64\<close> of fp.h behind their two wrappers) are external libraries.
\<close>

datatype om_compress_copy_callback_t =
    FN_om_common_copy8
  | FN_om_common_copy16
  | FN_om_common_copy32
  | FN_om_common_copy64
  | FN_om_common_copy_float_to_int16
  | FN_om_common_copy_float_to_int32
  | FN_om_common_copy_double_to_int64
  | FN_om_common_copy_float_to_int16_log10

datatype om_compress_filter_callback_t =
    FN_delta2d_encode8
  | FN_delta2d_encode16
  | FN_delta2d_encode32
  | FN_delta2d_encode64
  | FN_delta2d_encode_xor
  | FN_delta2d_encode_xor_double

datatype om_compress_callback_t =
    FN_p4nzenc8
  | FN_p4ndenc8
  | FN_p4nzenc128v16
  | FN_p4ndenc128v16
  | FN_p4nzenc128v32
  | FN_p4ndenc128v32
  | FN_p4nzenc64
  | FN_p4ndenc64
  | FN_om_common_compress_fpxenc32
  | FN_om_common_compress_fpxenc64

text \<open>
  Modelled from the spec: \<^verbatim>\<open>OmEncoder_t\<close> is declared in om_encoder.h, which is not among
  the sources; the fields are those that om_encoder.c reads and writes. The pointers
  \<open>dimensions\<close> and \<open>chunks\<close> are given by the arrays they point to.
\<close>

record OmEncoder_t =
  scale_factor :: cfloat
  add_offset :: cfloat
  dimensions :: "uint64_t list"
  chunks :: "uint64_t list"
  dimension_count :: uint64_t
  bytes_per_element :: uint64_t
  bytes_per_element_compressed :: uint64_t
  compress_copy_callback :: om_compress_copy_callback_t
  compress_filter_callback :: om_compress_filter_callback_t
  compress_callback :: om_compress_callback_t

text \<open>An encoder record with all fields zero, as a caller may pass it to \<^verbatim>\<open>om_encoder_init\<close>.\<close>

definition zero_encoder :: OmEncoder_t where
  "zero_encoder =
     \<lparr>scale_factor = FFin 0, add_offset = FFin 0, dimensions = [], chunks = [],
      dimension_count = 0, bytes_per_element = 0, bytes_per_element_compressed = 0,
      compress_copy_callback = FN_om_common_copy8,
      compress_filter_callback = FN_delta2d_encode8,
      compress_callback = FN_p4nzenc8\<rparr>"

text \<open>
  \<^verbatim>\<open>om_encoder_init\<close>, first \<^verbatim>\<open>switch (data_type)\<close>: sets the element sizes and the copy
  function; \<open>None\<close> is the \<^verbatim>\<open>default\<close> branch, which returns \<^verbatim>\<open>ERROR_INVALID_DATA_TYPE\<close>.
\<close>

definition init_data_type :: "OmDataType_t \<Rightarrow> OmEncoder_t \<Rightarrow> OmEncoder_t option" where
  "init_data_type data_type encoder =
     (if data_type = DATA_TYPE_INT8_ARRAY \<or> data_type = DATA_TYPE_UINT8_ARRAY then
        Some (encoder\<lparr>bytes_per_element := 1, bytes_per_element_compressed := 1,
                      compress_copy_callback := FN_om_common_copy8\<rparr>)
      else if data_type = DATA_TYPE_INT16_ARRAY \<or> data_type = DATA_TYPE_UINT16_ARRAY then
        Some (encoder\<lparr>bytes_per_element := 2, bytes_per_element_compressed := 2,
                      compress_copy_callback := FN_om_common_copy16\<rparr>)
      else if data_type = DATA_TYPE_INT32_ARRAY \<or> data_type = DATA_TYPE_UINT32_ARRAY
              \<or> data_type = DATA_TYPE_FLOAT_ARRAY then
        Some (encoder\<lparr>bytes_per_element := 4, bytes_per_element_compressed := 4,
                      compress_copy_callback := FN_om_common_copy32\<rparr>)
      else if data_type = DATA_TYPE_INT64_ARRAY \<or> data_type = DATA_TYPE_UINT64_ARRAY
              \<or> data_type = DATA_TYPE_DOUBLE_ARRAY then
        Some (encoder\<lparr>bytes_per_element := 8, bytes_per_element_compressed := 8,
                      compress_copy_callback := FN_om_common_copy32\<rparr>)
      else None)"

text \<open>The inner \<^verbatim>\<open>switch (data_type)\<close> of the case \<^verbatim>\<open>COMPRESSION_FPX_XOR2D\<close>.\<close>

definition init_fpx_xor2d :: "OmDataType_t \<Rightarrow> OmEncoder_t \<Rightarrow> OmEncoder_t option" where
  "init_fpx_xor2d data_type encoder =
     (if data_type = DATA_TYPE_FLOAT_ARRAY then
        Some (encoder\<lparr>compress_callback := FN_om_common_compress_fpxenc32,
                      compress_filter_callback := FN_delta2d_encode_xor\<rparr>)
      else if data_type = DATA_TYPE_DOUBLE_ARRAY then
        Some (encoder\<lparr>compress_callback := FN_om_common_compress_fpxenc64,
                      compress_filter_callback := FN_delta2d_encode_xor_double\<rparr>)
      else None)"

text \<open>The inner \<^verbatim>\<open>switch (data_type)\<close> of the case \<^verbatim>\<open>COMPRESSION_PFOR_DELTA2D\<close>.\<close>

definition init_pfor_delta2d :: "OmDataType_t \<Rightarrow> OmEncoder_t \<Rightarrow> OmEncoder_t option" where
  "init_pfor_delta2d data_type encoder =
     (if data_type = DATA_TYPE_INT8_ARRAY then
        Some (encoder\<lparr>compress_callback := FN_p4nzenc8,
                      compress_filter_callback := FN_delta2d_encode8\<rparr>)
      else if data_type = DATA_TYPE_UINT8_ARRAY then
        Some (encoder\<lparr>compress_callback := FN_p4ndenc8,
                      compress_filter_callback := FN_delta2d_encode8\<rparr>)
      else if data_type = DATA_TYPE_INT16_ARRAY then
        Some (encoder\<lparr>compress_callback := FN_p4nzenc128v16,
                      compress_filter_callback := FN_delta2d_encode16\<rparr>)
      else if data_type = DATA_TYPE_UINT16_ARRAY then
        Some (encoder\<lparr>compress_callback := FN_p4ndenc128v16,
                      compress_filter_callback := FN_delta2d_encode16\<rparr>)
      else if data_type = DATA_TYPE_INT32_ARRAY then
        Some (encoder\<lparr>compress_callback := FN_p4nzenc128v32,
                      compress_filter_callback := FN_delta2d_encode32\<rparr>)
      else if data_type = DATA_TYPE_UINT32_ARRAY then
        Some (encoder\<lparr>compress_callback := FN_p4ndenc128v32,
                      compress_filter_callback := FN_delta2d_encode32\<rparr>)
      else if data_type = DATA_TYPE_INT64_ARRAY then
        Some (encoder\<lparr>compress_callback := FN_p4nzenc64,
                      compress_filter_callback := FN_delta2d_encode64\<rparr>)
      else if data_type = DATA_TYPE_UINT64_ARRAY then
        Some (encoder\<lparr>compress_callback := FN_p4ndenc64,
                      compress_filter_callback := FN_delta2d_encode64\<rparr>)
      else if data_type = DATA_TYPE_FLOAT_ARRAY then
        Some (encoder\<lparr>compress_copy_callback := FN_om_common_copy_float_to_int32,
                      compress_filter_callback := FN_delta2d_encode32,
                      compress_callback := FN_p4nzenc128v32\<rparr>)
      else if data_type = DATA_TYPE_DOUBLE_ARRAY then
        Some (encoder\<lparr>compress_copy_callback := FN_om_common_copy_double_to_int64,
                      compress_filter_callback := FN_delta2d_encode64,
                      compress_callback := FN_p4nzenc64\<rparr>)
      else None)"

text \<open>The second \<^verbatim>\<open>switch (compression)\<close>, with the value that the function returns.\<close>

definition init_compression ::
  "OmCompression_t \<Rightarrow> OmDataType_t \<Rightarrow> OmEncoder_t \<Rightarrow> OmError_t \<times> OmEncoder_t" where
  "init_compression compression data_type encoder =
     (if compression = COMPRESSION_PFOR_DELTA2D_INT16 then
        (if data_type \<noteq> DATA_TYPE_FLOAT_ARRAY then (ERROR_INVALID_DATA_TYPE, encoder)
         else (ERROR_OK,
               encoder\<lparr>bytes_per_element := 4, bytes_per_element_compressed := 2,
                       compress_copy_callback := FN_om_common_copy_float_to_int16,
                       compress_filter_callback := FN_delta2d_encode16,
                       compress_callback := FN_p4nzenc128v16\<rparr>))
      else if compression = COMPRESSION_FPX_XOR2D then
        (case init_fpx_xor2d data_type encoder of
           None \<Rightarrow> (ERROR_INVALID_DATA_TYPE, encoder)
         | Some encoder' \<Rightarrow> (ERROR_OK, encoder'))
      else if compression = COMPRESSION_PFOR_DELTA2D then
        (case init_pfor_delta2d data_type encoder of
           None \<Rightarrow> (ERROR_INVALID_DATA_TYPE, encoder)
         | Some encoder' \<Rightarrow> (ERROR_OK, encoder'))
      else if compression = COMPRESSION_PFOR_DELTA2D_INT16_LOGARITHMIC then
        (if data_type \<noteq> DATA_TYPE_FLOAT_ARRAY then (ERROR_INVALID_DATA_TYPE, encoder)
         else (ERROR_OK,
               encoder\<lparr>bytes_per_element := 4, bytes_per_element_compressed := 2,
                       compress_copy_callback := FN_om_common_copy_float_to_int16_log10,
                       compress_filter_callback := FN_delta2d_encode16,
                       compress_callback := FN_p4nzenc128v16\<rparr>))
      else (ERROR_INVALID_COMPRESSION_TYPE, encoder))"

text \<open>
  \<^verbatim>\<open>om_encoder_init\<close> writes through the pointer \<open>encoder\<close>; the function takes the
  record as the caller passed it and returns the error code together with the record as
  the call leaves it.
\<close>

definition om_encoder_init ::
  "OmEncoder_t \<Rightarrow> cfloat \<Rightarrow> cfloat \<Rightarrow> OmCompression_t \<Rightarrow> OmDataType_t
     \<Rightarrow> uint64_t list \<Rightarrow> uint64_t list \<Rightarrow> uint64_t \<Rightarrow> OmError_t \<times> OmEncoder_t" where
  "om_encoder_init encoder scale_factor' add_offset' compression data_type
       dimensions' chunks' dimension_count' =
     (let encoder0 = encoder\<lparr>scale_factor := scale_factor', add_offset := add_offset',
                              dimensions := dimensions', chunks := chunks',
                              dimension_count := dimension_count'\<rparr>
      in case init_data_type data_type encoder0 of
           None \<Rightarrow> (ERROR_INVALID_DATA_TYPE, encoder0)
         | Some encoder1 \<Rightarrow> init_compression compression data_type encoder1)"

text \<open>\<^verbatim>\<open>om_get_element_size\<close> of om_common.c, with \<^verbatim>\<open>OmElementSize_t\<close> as a pair.\<close>

definition om_get_element_size ::
  "OmDataType_t \<Rightarrow> OmCompression_t \<Rightarrow> uint64_t \<times> uint64_t \<Rightarrow> OmError_t \<times> (uint64_t \<times> uint64_t)" where
  "om_get_element_size data_type compression size0 =
     (let by_type =
        (if data_type = DATA_TYPE_INT8_ARRAY \<or> data_type = DATA_TYPE_UINT8_ARRAY then Some (1, 1)
         else if data_type = DATA_TYPE_INT16_ARRAY \<or> data_type = DATA_TYPE_UINT16_ARRAY
           then Some (2, 2)
         else if data_type = DATA_TYPE_INT32_ARRAY \<or> data_type = DATA_TYPE_UINT32_ARRAY
                 \<or> data_type = DATA_TYPE_FLOAT_ARRAY then Some (4, 4)
         else if data_type = DATA_TYPE_INT64_ARRAY \<or> data_type = DATA_TYPE_UINT64_ARRAY
                 \<or> data_type = DATA_TYPE_DOUBLE_ARRAY then Some (8, 8)
         else None)
      in case by_type of
           None \<Rightarrow> (ERROR_INVALID_DATA_TYPE, size0)
         | Some size1 \<Rightarrow>
             (if compression = COMPRESSION_PFOR_DELTA2D_INT16
                 \<or> compression = COMPRESSION_PFOR_DELTA2D_INT16_LOGARITHMIC then
                (if data_type \<noteq> DATA_TYPE_FLOAT_ARRAY then (ERROR_INVALID_DATA_TYPE, size1)
                 else (ERROR_OK, (4, 2)))
              else if compression = COMPRESSION_FPX_XOR2D \<or> compression = COMPRESSION_PFOR_DELTA2D
                then (ERROR_OK, size1)
              else (ERROR_INVALID_COMPRESSION_TYPE, size1)))"

section \<open>Copy and quantisation stage (om_common.c)\<close>

abbreviation (input) INT16_MAX :: int where "INT16_MAX \<equiv> 32767"
abbreviation (input) INT16_MIN :: int where "INT16_MIN \<equiv> - 32768"
abbreviation (input) INT32_MAX :: int where "INT32_MAX \<equiv> 2147483647"
abbreviation (input) INT32_MIN :: int where "INT32_MIN \<equiv> - 2147483648"
abbreviation (input) INT64_MAX :: int where "INT64_MAX \<equiv> 9223372036854775807"
abbreviation (input) INT64_MIN :: int where "INT64_MIN \<equiv> - 9223372036854775808"

text \<open>
  All twelve functions are the loop
  \<^verbatim>\<open>for (uint64_t i = 0; i < length; ++i) ((T*)dst)[i] = f(((S*)src)[i])\<close>.
  The pointers \<open>src\<close> and \<open>dst\<close> are given by the arrays of elements that start at them.
  An access beyond the end of an array, or an element conversion whose behaviour is
  undefined, makes the call undefined: \<open>None\<close>.
\<close>

definition copy_loop :: "('a \<Rightarrow> 'b option) \<Rightarrow> nat \<Rightarrow> 'a list \<Rightarrow> 'b list \<Rightarrow> 'b list option" where
  "copy_loop f length' src dst =
     fold (\<lambda>i acc. case acc of
                      None \<Rightarrow> None
                    | Some d \<Rightarrow>
                        if i < length src \<and> i < length d
                        then map_option (\<lambda>v. d[i := v]) (f (src ! i)) else None)
          [0..<length'] (Some dst)"

text \<open>The loop bodies of the four quantisers.\<close>

definition float_to_int16 :: "cfloat \<Rightarrow> cfloat \<Rightarrow> cfloat \<Rightarrow> int16_t option" where
  "float_to_int16 scale_factor' add_offset' val =
     (if isnan val then Some (word_of_int INT16_MAX)
      else let scaled = fadd binary32 (fmul binary32 val scale_factor') add_offset';
               clamped = c_fmax (int_to_float binary32 INT16_MIN)
                           (c_fmin (int_to_float binary32 INT16_MAX) (c_round scaled))
           in float_to_word clamped)"

definition float_to_int32 :: "cfloat \<Rightarrow> cfloat \<Rightarrow> cfloat \<Rightarrow> int32_t option" where
  "float_to_int32 scale_factor' add_offset' val =
     (if isnan val then Some (word_of_int INT32_MAX)
      else let scaled = fadd binary32 (fmul binary32 val scale_factor') add_offset';
               clamped = c_fmax (int_to_float binary32 INT32_MIN)
                           (c_fmin (int_to_float binary32 INT32_MAX) (c_round scaled))
           in float_to_word clamped)"

text \<open>Every binary32 value is a binary64 value: the conversion \<^verbatim>\<open>(double)x\<close> is exact.\<close>

definition float_to_double :: "cfloat \<Rightarrow> cfloat" where
  "float_to_double x = x"

definition double_to_int64 :: "cfloat \<Rightarrow> cfloat \<Rightarrow> cfloat \<Rightarrow> int64_t option" where
  "double_to_int64 scale_factor' add_offset' val =
     (if isnan val then Some (word_of_int INT64_MAX)
      else let scaled = fadd binary64 (fmul binary64 val (float_to_double scale_factor'))
                          (float_to_double add_offset');
               clamped = c_fmax (int_to_float binary64 INT64_MIN)
                           (c_fmin (int_to_float binary64 INT64_MAX) (c_round scaled))
           in float_to_word clamped)"

definition float_to_int16_log10 :: "libm \<Rightarrow> cfloat \<Rightarrow> cfloat \<Rightarrow> cfloat \<Rightarrow> int16_t option" where
  "float_to_int16_log10 lm scale_factor' add_offset' val =
     (if isnan val then Some (word_of_int INT16_MAX)
      else let scaled = fmul binary32 (log10f lm (fadd binary32 (int_to_float binary32 1) val))
                          scale_factor';
               clamped = c_fmax (int_to_float binary32 INT16_MIN)
                           (c_fmin (int_to_float binary32 INT16_MAX) (c_round scaled))
           in float_to_word clamped)"

text \<open>The loop bodies of the four dequantisers.\<close>

definition int16_to_float :: "cfloat \<Rightarrow> cfloat \<Rightarrow> int16_t \<Rightarrow> cfloat" where
  "int16_to_float scale_factor' add_offset' val =
     (if sint val = INT16_MAX then NAN
      else fsub binary32 (fdiv binary32 (int_to_float binary32 (sint val)) scale_factor')
             add_offset')"

definition int32_to_float :: "cfloat \<Rightarrow> cfloat \<Rightarrow> int32_t \<Rightarrow> cfloat" where
  "int32_to_float scale_factor' add_offset' val =
     (if sint val = INT32_MAX then NAN
      else fsub binary32 (fdiv binary32 (int_to_float binary32 (sint val)) scale_factor')
             add_offset')"

definition int64_to_double :: "cfloat \<Rightarrow> cfloat \<Rightarrow> int64_t \<Rightarrow> cfloat" where
  "int64_to_double scale_factor' add_offset' val =
     (if sint val = INT64_MAX then NAN
      else fsub binary64
             (fdiv binary64 (int_to_float binary64 (sint val)) (float_to_double scale_factor'))
             (float_to_double add_offset'))"

definition int16_to_float_log10 :: "libm \<Rightarrow> cfloat \<Rightarrow> cfloat \<Rightarrow> int16_t \<Rightarrow> cfloat" where
  "int16_to_float_log10 lm scale_factor' add_offset' val =
     (if sint val = INT16_MAX then NAN
      else fsub binary32
             (powf lm (int_to_float binary32 10)
                (fdiv binary32 (int_to_float binary32 (sint val)) scale_factor'))
             (int_to_float binary32 1))"

definition om_common_copy_float_to_int16 ::
  "nat \<Rightarrow> cfloat \<Rightarrow> cfloat \<Rightarrow> cfloat list \<Rightarrow> int16_t list \<Rightarrow> int16_t list option" where
  "om_common_copy_float_to_int16 length' scale_factor' add_offset' src dst =
     copy_loop (float_to_int16 scale_factor' add_offset') length' src dst"

definition om_common_copy_float_to_int32 ::
  "nat \<Rightarrow> cfloat \<Rightarrow> cfloat \<Rightarrow> cfloat list \<Rightarrow> int32_t list \<Rightarrow> int32_t list option" where
  "om_common_copy_float_to_int32 length' scale_factor' add_offset' src dst =
     copy_loop (float_to_int32 scale_factor' add_offset') length' src dst"

definition om_common_copy_double_to_int64 ::
  "nat \<Rightarrow> cfloat \<Rightarrow> cfloat \<Rightarrow> cfloat list \<Rightarrow> int64_t list \<Rightarrow> int64_t list option" where
  "om_common_copy_double_to_int64 length' scale_factor' add_offset' src dst =
     copy_loop (double_to_int64 scale_factor' add_offset') length' src dst"

definition om_common_copy_float_to_int16_log10 ::
  "libm \<Rightarrow> nat \<Rightarrow> cfloat \<Rightarrow> cfloat \<Rightarrow> cfloat list \<Rightarrow> int16_t list \<Rightarrow> int16_t list option" where
  "om_common_copy_float_to_int16_log10 lm length' scale_factor' add_offset' src dst =
     copy_loop (float_to_int16_log10 lm scale_factor' add_offset') length' src dst"

definition om_common_copy_int16_to_float ::
  "nat \<Rightarrow> cfloat \<Rightarrow> cfloat \<Rightarrow> int16_t list \<Rightarrow> cfloat list \<Rightarrow> cfloat list option" where
  "om_common_copy_int16_to_float length' scale_factor' add_offset' src dst =
     copy_loop (\<lambda>val. Some (int16_to_float scale_factor' add_offset' val)) length' src dst"

definition om_common_copy_int32_to_float ::
  "nat \<Rightarrow> cfloat \<Rightarrow> cfloat \<Rightarrow> int32_t list \<Rightarrow> cfloat list \<Rightarrow> cfloat list option" where
  "om_common_copy_int32_to_float length' scale_factor' add_offset' src dst =
     copy_loop (\<lambda>val. Some (int32_to_float scale_factor' add_offset' val)) length' src dst"

definition om_common_copy_int64_to_double ::
  "nat \<Rightarrow> cfloat \<Rightarrow> cfloat \<Rightarrow> int64_t list \<Rightarrow> cfloat list \<Rightarrow> cfloat list option" where
  "om_common_copy_int64_to_double length' scale_factor' add_offset' src dst =
     copy_loop (\<lambda>val. Some (int64_to_double scale_factor' add_offset' val)) length' src dst"

definition om_common_copy_int16_to_float_log10 ::
  "libm \<Rightarrow> nat \<Rightarrow> cfloat \<Rightarrow> cfloat \<Rightarrow> int16_t list \<Rightarrow> cfloat list \<Rightarrow> cfloat list option" where
  "om_common_copy_int16_to_float_log10 lm length' scale_factor' add_offset' src dst =
     copy_loop (\<lambda>val. Some (int16_to_float_log10 lm scale_factor' add_offset' val)) length' src dst"

definition om_common_copy8 ::
  "nat \<Rightarrow> cfloat \<Rightarrow> cfloat \<Rightarrow> int8_t list \<Rightarrow> int8_t list \<Rightarrow> int8_t list option" where
  "om_common_copy8 length' scale_factor' add_offset' src dst = copy_loop Some length' src dst"

definition om_common_copy16 ::
  "nat \<Rightarrow> cfloat \<Rightarrow> cfloat \<Rightarrow> int16_t list \<Rightarrow> int16_t list \<Rightarrow> int16_t list option" where
  "om_common_copy16 length' scale_factor' add_offset' src dst = copy_loop Some length' src dst"

definition om_common_copy32 ::
  "nat \<Rightarrow> cfloat \<Rightarrow> cfloat \<Rightarrow> int32_t list \<Rightarrow> int32_t list \<Rightarrow> int32_t list option" where
  "om_common_copy32 length' scale_factor' add_offset' src dst = copy_loop Some length' src dst"

definition om_common_copy64 ::
  "nat \<Rightarrow> cfloat \<Rightarrow> cfloat \<Rightarrow> int64_t list \<Rightarrow> int64_t list \<Rightarrow> int64_t list option" where
  "om_common_copy64 length' scale_factor' add_offset' src dst = copy_loop Some length' src dst"

section \<open>Memory as bytes, and the calls through the function pointers\<close>

text \<open>
  \<^verbatim>\<open>om_encoder_compress_chunk\<close> handles the source array and the chunk buffer by byte
  addresses and the callbacks cast those addresses to typed pointers. A buffer is the
  list of its bytes; an element of \<open>width\<close> bytes is read and written in little-endian
  order, as on the targets of the library.
\<close>

definition word_of_bytes :: "uint8_t list \<Rightarrow> 'a::len word" where
  "word_of_bytes bs = foldr (\<lambda>b w. ucast b OR push_bit 8 w) bs 0"

definition bytes_of_word :: "nat \<Rightarrow> 'a::len word \<Rightarrow> uint8_t list" where
  "bytes_of_word width w = map (\<lambda>k. ucast (drop_bit (8 * k) w)) [0..<width]"

text \<open>The array of complete elements of \<open>width\<close> bytes that starts at byte \<open>off\<close>.\<close>

definition elements_at :: "nat \<Rightarrow> uint8_t list \<Rightarrow> nat \<Rightarrow> 'a::len word list" where
  "elements_at width mem off =
     map (\<lambda>k. word_of_bytes (take width (drop (off + k * width) mem)))
         [0..<(length mem - off) div width]"

text \<open>Writing the elements \<open>ws\<close> back to the bytes that start at \<open>off\<close>.\<close>

definition store_elements :: "nat \<Rightarrow> uint8_t list \<Rightarrow> nat \<Rightarrow> 'a::len word list \<Rightarrow> uint8_t list" where
  "store_elements width mem off ws =
     take off mem @ concat (map (bytes_of_word width) ws) @ drop (off + width * length ws) mem"

text \<open>
  \<^verbatim>\<open>(*encoder->compress_copy_callback)(length, scale_factor, add_offset, src, dst)\<close> with
  \<open>src\<close> the byte \<open>src_off\<close> of the source array and \<open>dst\<close> the byte \<open>dst_off\<close> of the chunk
  buffer.
\<close>

definition call_copy_callback ::
  "libm \<Rightarrow> om_compress_copy_callback_t \<Rightarrow> nat \<Rightarrow> cfloat \<Rightarrow> cfloat
     \<Rightarrow> uint8_t list \<Rightarrow> nat \<Rightarrow> uint8_t list \<Rightarrow> nat \<Rightarrow> uint8_t list option" where
  "call_copy_callback lm cb length' sf ao src src_off dst dst_off =
     (case cb of
        FN_om_common_copy8 \<Rightarrow>
          map_option (\<lambda>r. store_elements 1 dst dst_off (take length' r))
            (om_common_copy8 length' sf ao (elements_at 1 src src_off) (elements_at 1 dst dst_off))
      | FN_om_common_copy16 \<Rightarrow>
          map_option (\<lambda>r. store_elements 2 dst dst_off (take length' r))
            (om_common_copy16 length' sf ao (elements_at 2 src src_off) (elements_at 2 dst dst_off))
      | FN_om_common_copy32 \<Rightarrow>
          map_option (\<lambda>r. store_elements 4 dst dst_off (take length' r))
            (om_common_copy32 length' sf ao (elements_at 4 src src_off) (elements_at 4 dst dst_off))
      | FN_om_common_copy64 \<Rightarrow>
          map_option (\<lambda>r. store_elements 8 dst dst_off (take length' r))
            (om_common_copy64 length' sf ao (elements_at 8 src src_off) (elements_at 8 dst dst_off))
      | FN_om_common_copy_float_to_int16 \<Rightarrow>
          map_option (\<lambda>r. store_elements 2 dst dst_off (take length' r))
            (om_common_copy_float_to_int16 length' sf ao
               (map decode_float (elements_at 4 src src_off)) (elements_at 2 dst dst_off))
      | FN_om_common_copy_float_to_int32 \<Rightarrow>
          map_option (\<lambda>r. store_elements 4 dst dst_off (take length' r))
            (om_common_copy_float_to_int32 length' sf ao
               (map decode_float (elements_at 4 src src_off)) (elements_at 4 dst dst_off))
      | FN_om_common_copy_double_to_int64 \<Rightarrow>
          map_option (\<lambda>r. store_elements 8 dst dst_off (take length' r))
            (om_common_copy_double_to_int64 length' sf ao
               (map decode_double (elements_at 8 src src_off)) (elements_at 8 dst dst_off))
      | FN_om_common_copy_float_to_int16_log10 \<Rightarrow>
          map_option (\<lambda>r. store_elements 2 dst dst_off (take length' r))
            (om_common_copy_float_to_int16_log10 lm length' sf ao
               (map decode_float (elements_at 4 src src_off)) (elements_at 2 dst dst_off)))"

text \<open>
  \<^verbatim>\<open>(*encoder->compress_filter_callback)(length0, length1, chunkBuffer)\<close>. The predictor
  accesses the first \<open>length0 * length1\<close> elements of the buffer (32-bit elements in
  both XOR variants); a shorter buffer makes the call undefined. For the double variant
  the buffer counts with its complete 8-byte elements.
\<close>

definition call_filter_callback ::
  "om_compress_filter_callback_t \<Rightarrow> nat \<Rightarrow> nat \<Rightarrow> uint8_t list \<Rightarrow> uint8_t list option" where
  "call_filter_callback cb length0 length1 chunkBuffer =
     (case cb of
        FN_delta2d_encode8 \<Rightarrow>
          if 1 < length0 \<and> length chunkBuffer < length0 * length1 then None
          else Some (store_elements 1 chunkBuffer 0
                 (delta2d_encode8 length0 length1 (elements_at 1 chunkBuffer 0)))
      | FN_delta2d_encode16 \<Rightarrow>
          if 1 < length0 \<and> length chunkBuffer < 2 * (length0 * length1) then None
          else Some (store_elements 2 chunkBuffer 0
                 (delta2d_encode16 length0 length1 (elements_at 2 chunkBuffer 0)))
      | FN_delta2d_encode32 \<Rightarrow>
          if 1 < length0 \<and> length chunkBuffer < 4 * (length0 * length1) then None
          else Some (store_elements 4 chunkBuffer 0
                 (delta2d_encode32 length0 length1 (elements_at 4 chunkBuffer 0)))
      | FN_delta2d_encode64 \<Rightarrow>
          if 1 < length0 \<and> length chunkBuffer < 8 * (length0 * length1) then None
          else Some (store_elements 8 chunkBuffer 0
                 (delta2d_encode64 length0 length1 (elements_at 8 chunkBuffer 0)))
      | FN_delta2d_encode_xor \<Rightarrow>
          if 1 < length0 \<and> length chunkBuffer < 4 * (length0 * length1) then None
          else Some (store_elements 4 chunkBuffer 0
                 (delta2d_encode_xor length0 length1 (elements_at 4 chunkBuffer 0)))
      | FN_delta2d_encode_xor_double \<Rightarrow>
          if 1 < length0 \<and> 8 * (length chunkBuffer div 8) < 4 * (length0 * length1) then None
          else Some (store_elements 8 chunkBuffer 0
                 (delta2d_encode_xor_double length0 length1 (elements_at 8 chunkBuffer 0))))"

section \<open>The chunk gather of the encoder (om_encoder.c)\<close>

text \<open>
  Modelled from the spec: the macros \<^verbatim>\<open>divide_rounded_up\<close> and \<^verbatim>\<open>min\<close> come from
  om_common.h, which is not among the sources. The spec gives the first as
  \<open>\<lceil>dimensions[i] / chunks[i]\<rceil>\<close>, the quotient rounded up; the callers exclude a
  zero divisor.
\<close>

definition divide_rounded_up :: "uint64_t \<Rightarrow> uint64_t \<Rightarrow> uint64_t" where
  "divide_rounded_up dividend divisor =
     (if dividend mod divisor = 0 then dividend div divisor else dividend div divisor + 1)"

definition c_min :: "uint64_t \<Rightarrow> uint64_t \<Rightarrow> uint64_t" where
  "c_min a b = (if a < b then a else b)"

text \<open>
  What ends a call other than its \<^verbatim>\<open>return\<close>: one of the four assertions fails (the
  number is the source line of the \<^verbatim>\<open>assert\<close>), or the program does something whose
  behaviour C leaves undefined (an access outside a buffer, a division by zero, a
  conversion out of range).
\<close>

datatype abort = AssertionFailed nat | UndefinedBehaviour

text \<open>The local variables of \<^verbatim>\<open>om_encoder_compress_chunk\<close> that the loops update.\<close>

record gather_state =
  rollingMultiply :: uint64_t
  rollingMultiplyChunkLength :: uint64_t
  rollingMultiplyTargetCube :: uint64_t
  readCoordinate :: uint64_t
  writeCoordinate :: uint64_t
  linearReadCount :: uint64_t
  linearRead :: bool
  lengthLast :: uint64_t
  chunkBuffer_mem :: "uint8_t list"

text \<open>The arguments of the call that the loops only read.\<close>

record gather_args =
  arg_encoder :: OmEncoder_t
  arg_array :: "uint8_t list"
  arg_arrayDimensions :: "uint64_t list"
  arg_arrayOffset :: "uint64_t list"
  arg_arrayCount :: "uint64_t list"
  arg_chunkIndex :: uint64_t
  arg_chunkIndexOffsetInThisArray :: uint64_t

text \<open>\<^verbatim>\<open>for (i = 0; i < dimension_count; i++) arrayTotalCount *= arrayDimensions[i]\<close>\<close>

definition arrayTotalCount_of :: "uint64_t \<Rightarrow> uint64_t list \<Rightarrow> uint64_t option" where
  "arrayTotalCount_of dimension_count' arrayDimensions =
     (if length arrayDimensions < unat dimension_count' then None
      else Some (fold (\<lambda>i n. n * arrayDimensions ! i) [0..<unat dimension_count'] 1))"

text \<open>
  The two statements on \<open>linearReadCount\<close> and \<open>linearRead\<close>, which the first loop and the
  loop that advances the read position share word for word.
\<close>

definition update_linear ::
  "bool \<Rightarrow> uint64_t \<Rightarrow> uint64_t \<Rightarrow> uint64_t \<Rightarrow> gather_state \<Rightarrow> gather_state" where
  "update_linear is_last arrayCount_i arrayDimensions_i length0 s =
     (let s1 = (if is_last \<and> \<not> (arrayCount_i = length0 \<and> arrayDimensions_i = length0)
                then s\<lparr>linearReadCount := length0, linearRead := False\<rparr> else s)
      in if linearRead s1 \<and> arrayCount_i = length0 \<and> arrayDimensions_i = length0
         then s1\<lparr>linearReadCount := linearReadCount s1 * length0\<rparr>
         else s1\<lparr>linearRead := False\<rparr>)"

text \<open>The body of the first loop, for the dimension \<open>i = dimension_count - i_forward - 1\<close>.\<close>

definition first_loop_body :: "gather_args \<Rightarrow> nat \<Rightarrow> gather_state \<Rightarrow> abort + gather_state" where
  "first_loop_body a i s =
     (let encoder = arg_encoder a in
      if length (dimensions encoder) \<le> i \<or> length (chunks encoder) \<le> i
         \<or> length (arg_arrayDimensions a) \<le> i \<or> length (arg_arrayOffset a) \<le> i
         \<or> length (arg_arrayCount a) \<le> i then Inl UndefinedBehaviour
      else
      let dimension = dimensions encoder ! i;
          chunk = chunks encoder ! i
      in if chunk = 0 then Inl UndefinedBehaviour else
      let nChunksInThisDimension = divide_rounded_up dimension chunk
      in if rollingMultiply s = 0 \<or> nChunksInThisDimension = 0 then Inl UndefinedBehaviour else
      let c0 = (arg_chunkIndex a div rollingMultiply s) mod nChunksInThisDimension;
          c0Offset = (arg_chunkIndexOffsetInThisArray a div rollingMultiply s)
                       mod nChunksInThisDimension;
          length0 = c_min ((c0 + 1) * chunk) dimension - c0 * chunk;
          is_last = (i = unat (dimension_count encoder) - 1);
          s1 = (if is_last then s\<lparr>lengthLast := length0\<rparr> else s);
          s2 = s1\<lparr>readCoordinate := readCoordinate s1
                      + rollingMultiplyTargetCube s1 * (c0Offset * chunks encoder ! i + arg_arrayOffset a ! i)\<rparr>
      in if \<not> length0 \<le> arg_arrayCount a ! i then Inl (AssertionFailed 261)
         else if \<not> length0 \<le> arg_arrayDimensions a ! i then Inl (AssertionFailed 262)
         else
         let s3 = update_linear is_last (arg_arrayCount a ! i) (arg_arrayDimensions a ! i) length0 s2
         in Inr (s3\<lparr>rollingMultiply := rollingMultiply s3 * nChunksInThisDimension,
                    rollingMultiplyTargetCube := rollingMultiplyTargetCube s3 * arg_arrayDimensions a ! i,
                    rollingMultiplyChunkLength := rollingMultiplyChunkLength s3 * length0\<rparr>))"

fun first_loop :: "gather_args \<Rightarrow> nat list \<Rightarrow> gather_state \<Rightarrow> abort + gather_state" where
  "first_loop a [] s = Inr s"
| "first_loop a (i # rest) s =
     (case first_loop_body a i s of Inl e \<Rightarrow> Inl e | Inr s' \<Rightarrow> first_loop a rest s')"

text \<open>
  The body of the loop that advances the read position, for one dimension \<open>i\<close>. It ends
  in \<^verbatim>\<open>break\<close>, in the \<^verbatim>\<open>return\<close> of the function (when \<open>i = 0\<close>), or goes on to the next
  dimension.
\<close>

datatype control = Break | Return | Next

definition advance_body :: "gather_args \<Rightarrow> nat \<Rightarrow> gather_state \<Rightarrow> abort + control \<times> gather_state" where
  "advance_body a i s =
     (let encoder = arg_encoder a in
      if length (chunks encoder) \<le> i
         \<or> length (arg_arrayDimensions a) \<le> i \<or> length (arg_arrayOffset a) \<le> i
         \<or> length (arg_arrayCount a) \<le> i then Inl UndefinedBehaviour
      else
      let chunk = chunks encoder ! i;
          arrayDimensions_i = arg_arrayDimensions a ! i;
          arrayOffset_i = arg_arrayOffset a ! i;
          arrayCount_i = arg_arrayCount a ! i
      in if chunk = 0 \<or> rollingMultiplyTargetCube s = 0 \<or> arrayDimensions_i = 0
         then Inl UndefinedBehaviour else
      let qPos = ((readCoordinate s div rollingMultiplyTargetCube s) mod arrayDimensions_i
                    - arrayOffset_i) div chunk;
          length0 = c_min ((qPos + 1) * chunk) arrayCount_i - qPos * chunk;
          s1 = s\<lparr>readCoordinate := readCoordinate s + rollingMultiplyTargetCube s\<rparr>;
          s2 = update_linear (i = unat (dimension_count encoder) - 1)
                 arrayCount_i arrayDimensions_i length0 s1;
          q0 = ((readCoordinate s2 div rollingMultiplyTargetCube s2) mod arrayDimensions_i
                  - arrayOffset_i) mod chunks encoder ! i
      in if q0 \<noteq> 0 \<and> q0 \<noteq> length0 then Inr (Break, s2)
         else
         let s3 = s2\<lparr>readCoordinate := readCoordinate s2 - length0 * rollingMultiplyTargetCube s2\<rparr>;
             s4 = s3\<lparr>rollingMultiplyTargetCube := rollingMultiplyTargetCube s3 * arrayDimensions_i\<rparr>
         in if i = 0 then Inr (Return, s4) else Inr (Next, s4))"

fun advance_loop :: "gather_args \<Rightarrow> nat list \<Rightarrow> gather_state \<Rightarrow> abort + control \<times> gather_state" where
  "advance_loop a [] s = Inr (Next, s)"
| "advance_loop a (i # rest) s =
     (case advance_body a i s of
        Inl e \<Rightarrow> Inl e
      | Inr (Break, s') \<Rightarrow> Inr (Break, s')
      | Inr (Return, s') \<Rightarrow> Inr (Return, s')
      | Inr (Next, s') \<Rightarrow> advance_loop a rest s')"

text \<open>
  One iteration of \<^verbatim>\<open>while (true)\<close>: the two assertions, the call of the copy callback,
  and the loop that advances the read position. The flag of the result says whether the
  function has reached its \<^verbatim>\<open>return\<close>.
\<close>

definition while_body ::
  "libm \<Rightarrow> gather_args \<Rightarrow> uint64_t \<Rightarrow> uint64_t \<Rightarrow> gather_state \<Rightarrow> abort + bool \<times> gather_state" where
  "while_body lm a arrayTotalCount lengthInChunk s =
     (let encoder = arg_encoder a in
      if \<not> readCoordinate s + linearReadCount s \<le> arrayTotalCount then Inl (AssertionFailed 282)
      else if \<not> writeCoordinate s + linearReadCount s \<le> lengthInChunk then Inl (AssertionFailed 283)
      else
      case call_copy_callback lm (compress_copy_callback encoder) (unat (linearReadCount s))
             (scale_factor encoder) (add_offset encoder)
             (arg_array a) (unat (bytes_per_element encoder * readCoordinate s))
             (chunkBuffer_mem s) (unat (bytes_per_element_compressed encoder * writeCoordinate s)) of
        None \<Rightarrow> Inl UndefinedBehaviour
      | Some chunkBuffer' \<Rightarrow>
          let s1 = s\<lparr>chunkBuffer_mem := chunkBuffer',
                      readCoordinate := readCoordinate s + (linearReadCount s - 1),
                      writeCoordinate := writeCoordinate s + (linearReadCount s - 1) + 1\<rparr>;
              s2 = s1\<lparr>rollingMultiplyTargetCube := 1, linearRead := True, linearReadCount := 1\<rparr>
          in case advance_loop a (rev [0..<unat (dimension_count encoder)]) s2 of
               Inl e \<Rightarrow> Inl e
             | Inr (c, s3) \<Rightarrow> Inr (c = Return, s3))"

text \<open>\<^verbatim>\<open>while (true)\<close>: \<open>None\<close> is a loop that never ends.\<close>

partial_function (option) while_true ::
  "('s \<Rightarrow> abort + bool \<times> 's) \<Rightarrow> 's \<Rightarrow> (abort + 's) option" where
  "while_true body s =
     (case body s of
        Inl e \<Rightarrow> Some (Inl e)
      | Inr (finished, s') \<Rightarrow> if finished then Some (Inr s') else while_true body s')"

declare while_true.simps [code]

text \<open>
  The gather: everything that \<^verbatim>\<open>om_encoder_compress_chunk\<close> does before it calls the
  filter and the entropy coder. The result is the state at the \<^verbatim>\<open>return\<close> statement, with
  the chunk buffer as the copy callbacks have filled it, and \<open>lengthInChunk\<close>.
\<close>

definition compress_chunk_gather ::
  "libm \<Rightarrow> gather_args \<Rightarrow> uint8_t list \<Rightarrow> (abort + gather_state \<times> uint64_t) option" where
  "compress_chunk_gather lm a chunkBuffer =
     (let encoder = arg_encoder a;
          dimension_count' = dimension_count encoder
      in case arrayTotalCount_of dimension_count' (arg_arrayDimensions a) of
           None \<Rightarrow> Some (Inl UndefinedBehaviour)
         | Some arrayTotalCount \<Rightarrow>
             (case first_loop a (rev [0..<unat dimension_count'])
                     \<lparr>rollingMultiply = 1, rollingMultiplyChunkLength = 1,
                      rollingMultiplyTargetCube = 1, readCoordinate = 0, writeCoordinate = 0,
                      linearReadCount = 1, linearRead = True, lengthLast = 0,
                      chunkBuffer_mem = chunkBuffer\<rparr> of
                Inl e \<Rightarrow> Some (Inl e)
              | Inr s0 \<Rightarrow>
                  let lengthInChunk = rollingMultiplyChunkLength s0
                  in map_option (map_sum id (\<lambda>s. (s, lengthInChunk)))
                       (while_true (while_body lm a arrayTotalCount lengthInChunk) s0)))"

text \<open>
  \<^verbatim>\<open>om_encoder_compress_chunk\<close>. The entropy coder behind \<open>compress_callback\<close> is an
  external library and a parameter \<open>entropy\<close> here: from the callback, the chunk buffer,
  the element count and the output buffer it gives the number of bytes written and the
  output buffer. The result is the returned byte count, the output buffer and the chunk
  buffer.
\<close>

definition om_encoder_compress_chunk ::
  "libm \<Rightarrow> (om_compress_callback_t \<Rightarrow> uint8_t list \<Rightarrow> uint64_t \<Rightarrow> uint8_t list \<Rightarrow> uint64_t \<times> uint8_t list)
     \<Rightarrow> OmEncoder_t \<Rightarrow> uint8_t list \<Rightarrow> uint64_t list \<Rightarrow> uint64_t list \<Rightarrow> uint64_t list
     \<Rightarrow> uint64_t \<Rightarrow> uint64_t \<Rightarrow> uint8_t list \<Rightarrow> uint8_t list
     \<Rightarrow> (abort + uint64_t \<times> uint8_t list \<times> uint8_t list) option" where
  "om_encoder_compress_chunk lm entropy encoder array arrayDimensions arrayOffset arrayCount
       chunkIndex chunkIndexOffsetInThisArray out chunkBuffer =
     (case compress_chunk_gather lm
             \<lparr>arg_encoder = encoder, arg_array = array, arg_arrayDimensions = arrayDimensions,
              arg_arrayOffset = arrayOffset, arg_arrayCount = arrayCount,
              arg_chunkIndex = chunkIndex,
              arg_chunkIndexOffsetInThisArray = chunkIndexOffsetInThisArray\<rparr> chunkBuffer of
        None \<Rightarrow> None
      | Some (Inl e) \<Rightarrow> Some (Inl e)
      | Some (Inr (s, lengthInChunk)) \<Rightarrow>
          if lengthLast s = 0 then Some (Inl UndefinedBehaviour)
          else
          case call_filter_callback (compress_filter_callback encoder)
                 (unat (lengthInChunk div lengthLast s)) (unat (lengthLast s))
                 (chunkBuffer_mem s) of
            None \<Rightarrow> Some (Inl UndefinedBehaviour)
          | Some filtered \<Rightarrow>
              let (n, out') = entropy (compress_callback encoder) filtered lengthInChunk out
              in Some (Inr (n, out', filtered)))"

section \<open>The configuration errors in the words of the spec\<close>

text \<open>
  The payload-carrying array types, the four compressions, and the pairs that the spec
  calls incompatible: the two Int16 compressions with a data type other than the float
  array, and the XOR compression with a data type other than the float or double array.
\<close>

definition spec_supported_data_type :: "OmDataType_t \<Rightarrow> bool" where
  "spec_supported_data_type data_type =
     (data_type \<in> {DATA_TYPE_INT8_ARRAY, DATA_TYPE_UINT8_ARRAY, DATA_TYPE_INT16_ARRAY,
        DATA_TYPE_UINT16_ARRAY, DATA_TYPE_INT32_ARRAY, DATA_TYPE_UINT32_ARRAY,
        DATA_TYPE_INT64_ARRAY, DATA_TYPE_UINT64_ARRAY, DATA_TYPE_FLOAT_ARRAY,
        DATA_TYPE_DOUBLE_ARRAY})"

definition spec_known_compression :: "OmCompression_t \<Rightarrow> bool" where
  "spec_known_compression compression =
     (compression \<in> {COMPRESSION_PFOR_DELTA2D_INT16, COMPRESSION_FPX_XOR2D,
        COMPRESSION_PFOR_DELTA2D, COMPRESSION_PFOR_DELTA2D_INT16_LOGARITHMIC})"

definition spec_incompatible :: "OmCompression_t \<Rightarrow> OmDataType_t \<Rightarrow> bool" where
  "spec_incompatible compression data_type =
     ((compression = COMPRESSION_PFOR_DELTA2D_INT16 \<and> data_type \<noteq> DATA_TYPE_FLOAT_ARRAY)
      \<or> (compression = COMPRESSION_PFOR_DELTA2D_INT16_LOGARITHMIC \<and> data_type \<noteq> DATA_TYPE_FLOAT_ARRAY)
      \<or> (compression = COMPRESSION_FPX_XOR2D \<and> data_type \<noteq> DATA_TYPE_FLOAT_ARRAY
            \<and> data_type \<noteq> DATA_TYPE_DOUBLE_ARRAY))"

text \<open>The native element width of a supported array type, in bytes.\<close>

definition spec_native_width :: "OmDataType_t \<Rightarrow> uint64_t" where
  "spec_native_width data_type =
     (if data_type = DATA_TYPE_INT8_ARRAY \<or> data_type = DATA_TYPE_UINT8_ARRAY then 1
      else if data_type = DATA_TYPE_INT16_ARRAY \<or> data_type = DATA_TYPE_UINT16_ARRAY then 2
      else if data_type = DATA_TYPE_INT32_ARRAY \<or> data_type = DATA_TYPE_UINT32_ARRAY
              \<or> data_type = DATA_TYPE_FLOAT_ARRAY then 4
      else 8)"

section \<open>Saturation in the words of the spec\<close>

text \<open>
  The spec describes the quantisers as clamping the rounded value to the range of the
  integer type before the cast. \<open>spec_saturate n r\<close> is the \<open>n\<close>-bit integer nearest to the
  value \<open>r\<close> in that sense: the bounds for the infinities, and the upper bound for a NaN,
  which \<^verbatim>\<open>fminf\<close> replaces by its other argument.
\<close>

definition spec_saturate :: "nat \<Rightarrow> cfloat \<Rightarrow> int" where
  "spec_saturate n r =
     (case r of
        FNaN \<Rightarrow> 2 ^ (n - 1) - 1
      | FInf s \<Rightarrow> (if s then - (2 ^ (n - 1)) else 2 ^ (n - 1) - 1)
      | FNegZero \<Rightarrow> 0
      | FFin v \<Rightarrow> (let c = max (- (2 ^ (n - 1))) (min (2 ^ (n - 1) - 1) v)
                  in if c < 0 then - \<lfloor>- c\<rfloor> else \<lfloor>c\<rfloor>))"

text \<open>
  A C library for the examples: \<^verbatim>\<open>log10f\<close> and \<^verbatim>\<open>powf\<close> on the few arguments where the
  result is exact, NaN elsewhere.
\<close>

definition example_libm :: libm where
  "example_libm =
     \<lparr>log10f = (\<lambda>x. if x = FFin 1 then FFin 0 else if x = FFin 10 then FFin 1
                     else if x = FFin 100 then FFin 2 else FNaN),
      powf = (\<lambda>x y. if x = FFin 10 \<and> y = FFin 0 then FFin 1
                     else if x = FFin 10 \<and> y = FFin 1 then FFin 10
                     else if x = FFin 10 \<and> y = FFin 2 then FFin 100 else FNaN)\<rparr>"

section \<open>Properties of the Delta2D predictor\<close>

lemma length_delta2d_step [simp]: "length (delta2d_step f length1 d0 d1 b) = length b"
  by (simp add: delta2d_step_def)

lemma length_fold_delta2d_step [simp]:
  "length (fold (delta2d_step f length1 d0) ds b) = length b"
  by (induction ds arbitrary: b) simp_all

lemma length_delta2d_row [simp]: "length (delta2d_row f length1 d0 b) = length b"
  by (simp add: delta2d_row_def)

lemma nth_delta2d_step:
  assumes "1 \<le> d0" "d1 < length1" "d0 * length1 + d1 < length b" "i < length b"
  shows "delta2d_step f length1 d0 d1 b ! i =
         (if i = d0 * length1 + d1 then f (b ! i) (b ! (i - length1)) else b ! i)"
proof -
  obtain k where k: "d0 = Suc k" using assms(1) by (cases d0) auto
  have "(d0 - 1) * length1 + d1 = d0 * length1 + d1 - length1" by (simp add: k)
  then show ?thesis using assms(3,4) by (simp add: delta2d_step_def)
qed

lemma nth_delta2d_row_prefix:
  assumes "1 \<le> d0" "d0 * length1 + n \<le> length buf" "n \<le> length1" "i < length buf"
  shows "fold (delta2d_step f length1 d0) [0..<n] buf ! i
         = (if d0 * length1 \<le> i \<and> i < d0 * length1 + n then f (buf ! i) (buf ! (i - length1)) else buf ! i)"
  using assms
proof (induction n arbitrary: i)
  case 0
  then show ?case by auto
next
  case (Suc n)
  define b where "b = fold (delta2d_step f length1 d0) [0..<n] buf"
  define p where "p = d0 * length1"
  have len: "length b = length buf" by (simp add: b_def)
  have pl: "length1 \<le> p"
    using Suc.prems(1) by (cases d0) (simp_all add: p_def)
  have IH: "b ! j = (if p \<le> j \<and> j < p + n then f (buf ! j) (buf ! (j - length1)) else buf ! j)"
    if "j < length buf" for j
    using Suc.IH[of j] Suc.prems(1,2,3) that unfolding b_def p_def by simp
  have bound: "p + n < length buf" using Suc.prems(2) by (simp add: p_def)
  have a: "b ! (p + n) = buf ! (p + n)"
    using IH[OF bound] by simp
  have lt: "p + n - length1 < p" using pl Suc.prems(3) by linarith
  have c: "b ! (p + n - length1) = buf ! (p + n - length1)"
    using IH[of "p + n - length1"] lt bound by simp
  have step: "fold (delta2d_step f length1 d0) [0..<Suc n] buf = delta2d_step f length1 d0 n b"
    by (simp add: b_def)
  have nth: "delta2d_step f length1 d0 n b ! i =
         (if i = p + n then f (b ! i) (b ! (i - length1)) else b ! i)"
    unfolding p_def
    by (rule nth_delta2d_step) (use Suc.prems len bound in \<open>simp_all add: p_def\<close>)
  show ?case
  proof (cases "i = p + n")
    case True
    then show ?thesis
      unfolding step nth p_def[symmetric] using a c by simp
  next
    case False
    have "(p \<le> i \<and> i < p + Suc n) = (p \<le> i \<and> i < p + n)" using False by auto
    then show ?thesis
      unfolding step nth p_def[symmetric] using IH[OF Suc.prems(4)] False by simp
  qed
qed

lemma nth_delta2d_row:
  assumes "1 \<le> d0" "(d0 + 1) * length1 \<le> length buf" "i < length buf"
  shows "delta2d_row f length1 d0 buf ! i
         = (if d0 * length1 \<le> i \<and> i < (d0 + 1) * length1 then f (buf ! i) (buf ! (i - length1)) else buf ! i)"
proof -
  have e: "(d0 + 1) * length1 = d0 * length1 + length1" by simp
  show ?thesis
    unfolding delta2d_row_def e
    by (rule nth_delta2d_row_prefix) (use assms in simp_all)
qed


lemma delta2d_row_inverse:
  assumes inv: "\<And>a b. g (f a b) b = a"
    and d0: "1 \<le> d0" and len: "(d0 + 1) * length1 \<le> length buf"
  shows "delta2d_row g length1 d0 (delta2d_row f length1 d0 buf) = buf"
proof (rule nth_equalityI)
  show "length (delta2d_row g length1 d0 (delta2d_row f length1 d0 buf)) = length buf" by simp
next
  fix i assume "i < length (delta2d_row g length1 d0 (delta2d_row f length1 d0 buf))"
  then have i: "i < length buf" by simp
  define b where "b = delta2d_row f length1 d0 buf"
  have lb: "length b = length buf" by (simp add: b_def)
  have outer: "delta2d_row g length1 d0 b ! i =
      (if d0 * length1 \<le> i \<and> i < (d0 + 1) * length1 then g (b ! i) (b ! (i - length1)) else b ! i)"
    by (rule nth_delta2d_row) (use d0 len i lb in simp_all)
  have inner: "b ! j =
      (if d0 * length1 \<le> j \<and> j < (d0 + 1) * length1 then f (buf ! j) (buf ! (j - length1)) else buf ! j)"
    if "j < length buf" for j
    unfolding b_def by (rule nth_delta2d_row) (use d0 len that in simp_all)
  show "delta2d_row g length1 d0 (delta2d_row f length1 d0 buf) ! i = buf ! i"
  proof (cases "d0 * length1 \<le> i \<and> i < (d0 + 1) * length1")
    case True
    obtain k where k: "d0 = Suc k" using d0 by (cases d0) auto
    have "length1 \<le> d0 * length1" by (simp add: k)
    moreover have "(d0 + 1) * length1 = d0 * length1 + length1" by simp
    ultimately have lo: "i - length1 < d0 * length1" using True by linarith
    have "b ! (i - length1) = buf ! (i - length1)"
      using inner[of "i - length1"] lo i by simp
    moreover have "b ! i = f (buf ! i) (buf ! (i - length1))"
      using inner[OF i] True by simp
    ultimately show ?thesis
      unfolding b_def[symmetric] outer using True inv by simp
  next
    case False
    have "delta2d_row g length1 d0 b ! i = b ! i"
      unfolding outer using False by (rule if_not_P)
    moreover have "b ! i = buf ! i"
      unfolding inner[OF i] using False by (rule if_not_P)
    ultimately show ?thesis
      unfolding b_def[symmetric] by simp
  qed
qed

lemma length_fold_delta2d_row [simp]:
  "length (fold (delta2d_row f length1) ds buf) = length buf"
  by (induction ds arbitrary: buf) simp_all

lemma fold_delta2d_rows_inverse:
  assumes inv: "\<And>a b. g (f a b) b = a"
    and ds: "\<forall>d\<in>set ds. 1 \<le> d \<and> (d + 1) * length1 \<le> length buf"
  shows "fold (delta2d_row g length1) ds (fold (delta2d_row f length1) (rev ds) buf) = buf"
  using ds
proof (induction ds)
  case Nil
  then show ?case by simp
next
  case (Cons d ds)
  define z where "z = fold (delta2d_row f length1) (rev ds) buf"
  have lz: "length z = length buf" by (simp add: z_def)
  have "delta2d_row g length1 d (delta2d_row f length1 d z) = z"
    by (rule delta2d_row_inverse[of g f, OF inv]) (use Cons.prems lz in simp_all)
  moreover have "fold (delta2d_row g length1) ds z = buf"
    unfolding z_def using Cons by simp
  ultimately show ?case
    by (simp add: z_def)
qed

lemma delta2d_loops_inverse:
  assumes inv: "\<And>a b. g (f a b) b = a"
    and len: "length0 * length1 \<le> length buf"
  shows "delta2d_decode_loop g length0 length1 (delta2d_encode_loop f length0 length1 buf) = buf"
proof (cases "length0 \<le> 1")
  case True
  then show ?thesis by (simp add: delta2d_decode_loop_def delta2d_encode_loop_def)
next
  case False
  have "\<forall>d\<in>set [1..<length0]. 1 \<le> d \<and> (d + 1) * length1 \<le> length buf"
  proof
    fix d assume "d \<in> set [1..<length0]"
    then have d: "1 \<le> d" "d + 1 \<le> length0" by simp_all
    from d(2) have "(d + 1) * length1 \<le> length0 * length1" by (rule mult_le_mono1)
    with d(1) len show "1 \<le> d \<and> (d + 1) * length1 \<le> length buf" by linarith
  qed
  then have "fold (delta2d_row g length1) [1..<length0]
       (fold (delta2d_row f length1) (rev [1..<length0]) buf) = buf"
    by (rule fold_delta2d_rows_inverse[of g f, OF inv])
  then show ?thesis
    using False by (simp add: delta2d_decode_loop_def delta2d_encode_loop_def)
qed

lemma length_delta2d_encode_loop [simp]:
  "length (delta2d_encode_loop f length0 length1 buf) = length buf"
  by (simp add: delta2d_encode_loop_def)

lemma double_of_ints_int_view:
  "double_of_ints (ucast w) (ucast (drop_bit 32 w)) = w"
  unfolding double_of_ints_def
  by (rule bit_word_eqI) (auto simp: bit_simps)

lemma int_view_of_double_of_ints:
  "int_view_of_double (double_of_ints lo hi) = [lo, hi]"
proof -
  have a: "(ucast ((ucast lo :: 64 word) OR push_bit 32 (ucast hi)) :: 32 word) = lo"
    by (rule bit_word_eqI) (auto simp: bit_simps)
  have b: "(ucast (drop_bit 32 ((ucast lo :: 64 word) OR push_bit 32 (ucast hi))) :: 32 word) = hi"
    by (rule bit_word_eqI) (auto simp: bit_simps dest: bit_imp_le_length)
  show ?thesis
    unfolding int_view_of_double_def double_of_ints_def a b ..
qed

lemma double_view_int_view [simp]: "double_view (int_view ws) = ws"
  by (induction ws) (simp_all add: int_view_def int_view_of_double_def double_of_ints_int_view)

lemma int_view_double_view:
  "even (length vs) \<Longrightarrow> int_view (double_view vs) = vs"
  by (induction vs rule: double_view.induct)
     (simp_all add: int_view_def int_view_of_double_of_ints)

lemma length_int_view [simp]: "length (int_view ws) = 2 * length ws"
  by (induction ws) (simp_all add: int_view_def int_view_of_double_def)

text \<open>
  C2. For every element width (8, 16, 32 and 64-bit integers, the XOR float variant on
  32-bit patterns and the XOR double variant on 64-bit patterns), every \<open>length0\<close> and
  \<open>length1\<close>, and every buffer of \<open>length0 * length1\<close> elements, the inverse transform
  applied to the forward transform returns the buffer unchanged, bit for bit; integer
  addition and subtraction wrap modulo \<open>2 ^ W\<close>.
\<close>

theorem delta2d_decode_encode:
  assumes "length B8 = length0 * length1" "length B16 = length0 * length1"
    "length B32 = length0 * length1" "length B64 = length0 * length1"
    "length F32 = length0 * length1" "length F64 = length0 * length1"
  shows "delta2d_decode8 length0 length1 (delta2d_encode8 length0 length1 B8) = B8
    \<and> delta2d_decode16 length0 length1 (delta2d_encode16 length0 length1 B16) = B16
    \<and> delta2d_decode32 length0 length1 (delta2d_encode32 length0 length1 B32) = B32
    \<and> delta2d_decode64 length0 length1 (delta2d_encode64 length0 length1 B64) = B64
    \<and> delta2d_decode_xor length0 length1 (delta2d_encode_xor length0 length1 F32) = F32
    \<and> delta2d_decode_xor_double length0 length1 (delta2d_encode_xor_double length0 length1 F64) = F64"
proof -
  have i8: "delta2d_decode8 length0 length1 (delta2d_encode8 length0 length1 B8) = B8"
    unfolding delta2d_decode8_def delta2d_encode8_def
    by (rule delta2d_loops_inverse) (use assms in simp_all)
  have i16: "delta2d_decode16 length0 length1 (delta2d_encode16 length0 length1 B16) = B16"
    unfolding delta2d_decode16_def delta2d_encode16_def
    by (rule delta2d_loops_inverse) (use assms in simp_all)
  have i32: "delta2d_decode32 length0 length1 (delta2d_encode32 length0 length1 B32) = B32"
    unfolding delta2d_decode32_def delta2d_encode32_def
    by (rule delta2d_loops_inverse) (use assms in simp_all)
  have i64: "delta2d_decode64 length0 length1 (delta2d_encode64 length0 length1 B64) = B64"
    unfolding delta2d_decode64_def delta2d_encode64_def
    by (rule delta2d_loops_inverse) (use assms in simp_all)
  have f32: "delta2d_decode_xor length0 length1 (delta2d_encode_xor length0 length1 F32) = F32"
    unfolding delta2d_decode_xor_def delta2d_encode_xor_def
    by (rule delta2d_loops_inverse) (use assms in \<open>simp_all add: xor.assoc\<close>)
  have ev: "even (length (delta2d_encode_loop (XOR) length0 length1 (int_view F64)))"
    by simp
  have "delta2d_decode_loop (XOR) length0 length1
          (delta2d_encode_loop (XOR) length0 length1 (int_view F64)) = int_view F64"
    by (rule delta2d_loops_inverse) (use assms in \<open>simp_all add: xor.assoc\<close>)
  then have f64: "delta2d_decode_xor_double length0 length1
          (delta2d_encode_xor_double length0 length1 F64) = F64"
    unfolding delta2d_decode_xor_double_def delta2d_encode_xor_double_def
    by (simp add: int_view_double_view[OF ev])
  from i8 i16 i32 i64 f32 f64 show ?thesis by simp
qed

theorem delta2d_decode_encode_witness:
  "delta2d_decode8 2 3 (delta2d_encode8 2 3 [1, 2, 3, 4, 6, 8]) = [1, 2, 3, 4, 6, 8]
    \<and> delta2d_decode16 2 3 (delta2d_encode16 2 3 [1, 2, 3, 4, 6, 8]) = [1, 2, 3, 4, 6, 8]
    \<and> delta2d_decode32 2 3 (delta2d_encode32 2 3 [1, 2, 3, 4, 6, 8]) = [1, 2, 3, 4, 6, 8]
    \<and> delta2d_decode64 2 3 (delta2d_encode64 2 3 [1, 2, 3, 4, 6, 8]) = [1, 2, 3, 4, 6, 8]
    \<and> delta2d_decode_xor 2 3 (delta2d_encode_xor 2 3 [1, 2, 3, 4, 6, 8]) = [1, 2, 3, 4, 6, 8]
    \<and> delta2d_decode_xor_double 2 3 (delta2d_encode_xor_double 2 3 [1, 2, 3, 4, 6, 8])
        = [1, 2, 3, 4, 6, 8]"
  by (rule delta2d_decode_encode) simp_all

section \<open>Properties of \<^verbatim>\<open>om_encoder_init\<close>\<close>

lemma init_data_type_None:
  "init_data_type data_type encoder = None \<longleftrightarrow> \<not> spec_supported_data_type data_type"
  by (simp add: init_data_type_def spec_supported_data_type_def)

lemma init_fpx_xor2d_None:
  "init_fpx_xor2d data_type encoder = None \<longleftrightarrow>
     data_type \<noteq> DATA_TYPE_FLOAT_ARRAY \<and> data_type \<noteq> DATA_TYPE_DOUBLE_ARRAY"
  by (simp add: init_fpx_xor2d_def)

lemma init_pfor_delta2d_None:
  "init_pfor_delta2d data_type encoder = None \<longleftrightarrow> \<not> spec_supported_data_type data_type"
  by (simp add: init_pfor_delta2d_def spec_supported_data_type_def)

lemma fst_init_compression:
  assumes "spec_supported_data_type data_type"
  shows "fst (init_compression compression data_type encoder) =
     (if \<not> spec_known_compression compression then ERROR_INVALID_COMPRESSION_TYPE
      else if spec_incompatible compression data_type then ERROR_INVALID_DATA_TYPE
      else ERROR_OK)"
proof -
  have p: "init_pfor_delta2d data_type encoder \<noteq> None"
    using assms by (simp add: init_pfor_delta2d_None)
  consider "compression = COMPRESSION_PFOR_DELTA2D_INT16" | "compression = COMPRESSION_FPX_XOR2D"
    | "compression = COMPRESSION_PFOR_DELTA2D" | "compression = COMPRESSION_PFOR_DELTA2D_INT16_LOGARITHMIC"
    | "\<not> spec_known_compression compression"
    by (auto simp: spec_known_compression_def)
  then show ?thesis
  proof cases
    case 1
    then show ?thesis
      by (simp add: init_compression_def spec_known_compression_def spec_incompatible_def)
  next
    case 2
    then show ?thesis
      using init_fpx_xor2d_None[of data_type encoder]
      by (cases "init_fpx_xor2d data_type encoder")
         (simp_all add: init_compression_def spec_known_compression_def spec_incompatible_def)
  next
    case 3
    then show ?thesis
      using p
      by (cases "init_pfor_delta2d data_type encoder")
         (simp_all add: init_compression_def spec_known_compression_def spec_incompatible_def)
  next
    case 4
    then show ?thesis
      by (simp add: init_compression_def spec_known_compression_def spec_incompatible_def)
  next
    case 5
    then show ?thesis
      by (simp add: init_compression_def spec_known_compression_def)
  qed
qed

lemma fst_om_encoder_init:
  "fst (om_encoder_init encoder sf ao compression data_type dims cks n) =
     (if \<not> spec_supported_data_type data_type then ERROR_INVALID_DATA_TYPE
      else if \<not> spec_known_compression compression then ERROR_INVALID_COMPRESSION_TYPE
      else if spec_incompatible compression data_type then ERROR_INVALID_DATA_TYPE
      else ERROR_OK)"
proof (cases "spec_supported_data_type data_type")
  case True
  define encoder0 where "encoder0 = encoder\<lparr>scale_factor := sf, add_offset := ao,
                              dimensions := dims, chunks := cks, dimension_count := n\<rparr>"
  from True obtain encoder1 where e1: "init_data_type data_type encoder0 = Some encoder1"
    using init_data_type_None[of data_type encoder0] by (cases "init_data_type data_type encoder0") auto
  have "fst (om_encoder_init encoder sf ao compression data_type dims cks n)
      = fst (init_compression compression data_type encoder1)"
    by (simp add: om_encoder_init_def Let_def encoder0_def[symmetric] e1)
  then show ?thesis using True by (simp add: fst_init_compression)
next
  case False
  then show ?thesis
    by (simp add: om_encoder_init_def Let_def init_data_type_None[THEN iffD2])
qed

text \<open>
  C8, as amended. \<^verbatim>\<open>om_encoder_init\<close> returns \<^verbatim>\<open>ERROR_INVALID_DATA_TYPE\<close> exactly when the
  data type is not a supported payload array type or is incompatible with the chosen
  compression; it returns \<^verbatim>\<open>ERROR_INVALID_COMPRESSION_TYPE\<close> exactly when the data type is
  a supported payload array type and the compression is none of the four known variants
  (the data type is checked first); and it returns \<^verbatim>\<open>ERROR_OK\<close> exactly for the valid
  pairs of data type and compression.
\<close>

theorem om_encoder_init_result:
  "(fst (om_encoder_init encoder sf ao compression data_type dims cks n) = ERROR_INVALID_DATA_TYPE
      \<longleftrightarrow> \<not> spec_supported_data_type data_type \<or> spec_incompatible compression data_type)
   \<and> (fst (om_encoder_init encoder sf ao compression data_type dims cks n) = ERROR_INVALID_COMPRESSION_TYPE
      \<longleftrightarrow> spec_supported_data_type data_type \<and> \<not> spec_known_compression compression)
   \<and> (fst (om_encoder_init encoder sf ao compression data_type dims cks n) = ERROR_OK
      \<longleftrightarrow> spec_supported_data_type data_type \<and> spec_known_compression compression
          \<and> \<not> spec_incompatible compression data_type)"
proof -
  have "spec_incompatible compression data_type \<Longrightarrow> spec_known_compression compression"
    by (auto simp: spec_incompatible_def spec_known_compression_def)
  then show ?thesis
    unfolding fst_om_encoder_init by auto
qed

theorem om_encoder_init_result_witness:
  "fst (om_encoder_init zero_encoder (FFin 1) (FFin 0) COMPRESSION_FPX_XOR2D
          DATA_TYPE_INT16_ARRAY [4] [4] 1) = ERROR_INVALID_DATA_TYPE
   \<and> fst (om_encoder_init zero_encoder (FFin 1) (FFin 0) 4
          DATA_TYPE_INT16_ARRAY [4] [4] 1) = ERROR_INVALID_COMPRESSION_TYPE
   \<and> fst (om_encoder_init zero_encoder (FFin 1) (FFin 0) COMPRESSION_PFOR_DELTA2D_INT16
          DATA_TYPE_FLOAT_ARRAY [4] [4] 1) = ERROR_OK"
  using om_encoder_init_result[of zero_encoder "FFin 1" "FFin 0" COMPRESSION_FPX_XOR2D
          DATA_TYPE_INT16_ARRAY "[4]" "[4]" 1]
        om_encoder_init_result[of zero_encoder "FFin 1" "FFin 0" 4
          DATA_TYPE_INT16_ARRAY "[4]" "[4]" 1]
        om_encoder_init_result[of zero_encoder "FFin 1" "FFin 0" COMPRESSION_PFOR_DELTA2D_INT16
          DATA_TYPE_FLOAT_ARRAY "[4]" "[4]" 1]
  by (simp add: spec_supported_data_type_def spec_known_compression_def spec_incompatible_def)

text \<open>
  C8 as stated says that an unknown compression always gives
  \<^verbatim>\<open>ERROR_INVALID_COMPRESSION_TYPE\<close>. With the compression value 99 and the data type
  \<^verbatim>\<open>DATA_TYPE_NONE\<close> the first switch returns \<^verbatim>\<open>ERROR_INVALID_DATA_TYPE\<close> before the
  compression is looked at.
\<close>

theorem om_encoder_init_unknown_compression_counterexample:
  "\<not> spec_known_compression 99
   \<and> fst (om_encoder_init zero_encoder (FFin 1) (FFin 0) 99 DATA_TYPE_NONE [4] [4] 1)
       = ERROR_INVALID_DATA_TYPE
   \<and> fst (om_encoder_init zero_encoder (FFin 1) (FFin 0) 99 DATA_TYPE_NONE [4] [4] 1)
       \<noteq> ERROR_INVALID_COMPRESSION_TYPE"
proof -
  have "fst (om_encoder_init zero_encoder (FFin 1) (FFin 0) 99 DATA_TYPE_NONE [4] [4] 1)
       = ERROR_INVALID_DATA_TYPE"
    by code_simp
  then show ?thesis by (simp add: spec_known_compression_def)
qed

lemma init_data_type_Some:
  assumes "init_data_type data_type encoder = Some encoder1"
  shows "scale_factor encoder1 = scale_factor encoder
    \<and> add_offset encoder1 = add_offset encoder
    \<and> dimensions encoder1 = dimensions encoder
    \<and> chunks encoder1 = chunks encoder
    \<and> dimension_count encoder1 = dimension_count encoder
    \<and> bytes_per_element encoder1 = spec_native_width data_type
    \<and> bytes_per_element_compressed encoder1 = spec_native_width data_type
    \<and> compress_copy_callback encoder1 =
        (if spec_native_width data_type = 1 then FN_om_common_copy8
         else if spec_native_width data_type = 2 then FN_om_common_copy16
         else FN_om_common_copy32)"
  using assms
  by (auto simp: init_data_type_def spec_native_width_def split: if_splits)

lemma snd_init_compression_error:
  assumes "fst (init_compression compression data_type encoder) \<noteq> ERROR_OK"
  shows "snd (init_compression compression data_type encoder) = encoder"
  using assms
  by (auto simp: init_compression_def split: if_splits option.splits)

lemma om_encoder_init_cases:
  obtains
    (unsupported) "init_data_type data_type
        (encoder\<lparr>scale_factor := sf, add_offset := ao, dimensions := dims, chunks := cks,
                 dimension_count := n\<rparr>) = None"
      "om_encoder_init encoder sf ao compression data_type dims cks n =
         (ERROR_INVALID_DATA_TYPE,
          encoder\<lparr>scale_factor := sf, add_offset := ao, dimensions := dims, chunks := cks,
                  dimension_count := n\<rparr>)"
  | (supported) encoder1 where
      "init_data_type data_type
        (encoder\<lparr>scale_factor := sf, add_offset := ao, dimensions := dims, chunks := cks,
                 dimension_count := n\<rparr>) = Some encoder1"
      "om_encoder_init encoder sf ao compression data_type dims cks n =
         init_compression compression data_type encoder1"
  by (cases "init_data_type data_type
        (encoder\<lparr>scale_factor := sf, add_offset := ao, dimensions := dims, chunks := cks,
                 dimension_count := n\<rparr>)")
     (simp_all add: om_encoder_init_def Let_def)

text \<open>
  C10. \<^verbatim>\<open>om_encoder_init\<close> is not atomic on error: whenever it returns an error, the
  record it leaves behind holds the scale factor, the offset, the dimensions, the chunks
  and the dimension count of the call, which are written before any validation; and when
  the error is \<^verbatim>\<open>ERROR_INVALID_COMPRESSION_TYPE\<close> (only the compression check fails) it holds
  the element sizes and the copy callback of the data type as well.
\<close>

theorem om_encoder_init_not_atomic:
  assumes "fst (om_encoder_init encoder sf ao compression data_type dims cks n) \<noteq> ERROR_OK"
  shows "scale_factor (snd (om_encoder_init encoder sf ao compression data_type dims cks n)) = sf
    \<and> add_offset (snd (om_encoder_init encoder sf ao compression data_type dims cks n)) = ao
    \<and> dimensions (snd (om_encoder_init encoder sf ao compression data_type dims cks n)) = dims
    \<and> chunks (snd (om_encoder_init encoder sf ao compression data_type dims cks n)) = cks
    \<and> dimension_count (snd (om_encoder_init encoder sf ao compression data_type dims cks n)) = n
    \<and> (fst (om_encoder_init encoder sf ao compression data_type dims cks n)
          = ERROR_INVALID_COMPRESSION_TYPE \<longrightarrow>
        bytes_per_element (snd (om_encoder_init encoder sf ao compression data_type dims cks n))
          = spec_native_width data_type
        \<and> bytes_per_element_compressed
            (snd (om_encoder_init encoder sf ao compression data_type dims cks n))
          = spec_native_width data_type
        \<and> compress_copy_callback
            (snd (om_encoder_init encoder sf ao compression data_type dims cks n))
          = (if spec_native_width data_type = 1 then FN_om_common_copy8
             else if spec_native_width data_type = 2 then FN_om_common_copy16
             else FN_om_common_copy32))"
proof (cases rule: om_encoder_init_cases[where data_type=data_type and encoder=encoder and sf=sf and ao=ao and dims=dims and cks=cks and n=n and compression=compression])
  case unsupported
  then show ?thesis by simp
next
  case (supported encoder1)
  have "snd (init_compression compression data_type encoder1) = encoder1"
    using assms supported(2) by (simp add: snd_init_compression_error)
  then have "snd (om_encoder_init encoder sf ao compression data_type dims cks n) = encoder1"
    using supported(2) by simp
  then show ?thesis
    using init_data_type_Some[OF supported(1)] by simp
qed

theorem om_encoder_init_not_atomic_witness:
  "fst (om_encoder_init zero_encoder (FFin 10) (FFin 2) 99 DATA_TYPE_INT16_ARRAY [4] [2] 1)
     = ERROR_INVALID_COMPRESSION_TYPE
   \<and> snd (om_encoder_init zero_encoder (FFin 10) (FFin 2) 99 DATA_TYPE_INT16_ARRAY [4] [2] 1)
     = zero_encoder\<lparr>scale_factor := FFin 10, add_offset := FFin 2, dimensions := [4],
         chunks := [2], dimension_count := 1, bytes_per_element := 2,
         bytes_per_element_compressed := 2, compress_copy_callback := FN_om_common_copy16\<rparr>"
proof -
  have r: "fst (om_encoder_init zero_encoder (FFin 10) (FFin 2) 99 DATA_TYPE_INT16_ARRAY [4] [2] 1)
     = ERROR_INVALID_COMPRESSION_TYPE"
    by code_simp
  then have ne: "fst (om_encoder_init zero_encoder (FFin 10) (FFin 2) 99 DATA_TYPE_INT16_ARRAY [4] [2] 1)
     \<noteq> ERROR_OK" by simp
  have w: "spec_native_width DATA_TYPE_INT16_ARRAY = 2" by (simp add: spec_native_width_def)
  have z: "compress_filter_callback
             (snd (om_encoder_init zero_encoder (FFin 10) (FFin 2) 99 DATA_TYPE_INT16_ARRAY [4] [2] 1))
             = FN_delta2d_encode8
         \<and> compress_callback
             (snd (om_encoder_init zero_encoder (FFin 10) (FFin 2) 99 DATA_TYPE_INT16_ARRAY [4] [2] 1))
             = FN_p4nzenc8"
    by code_simp
  show ?thesis
    using om_encoder_init_not_atomic[OF ne] r w z
    by (cases "snd (om_encoder_init zero_encoder (FFin 10) (FFin 2) 99 DATA_TYPE_INT16_ARRAY [4] [2] 1)")
       (simp add: zero_encoder_def)
qed

text \<open>
  C3 fails on the code. For \<^verbatim>\<open>DATA_TYPE_INT64_ARRAY\<close> and \<^verbatim>\<open>DATA_TYPE_UINT64_ARRAY\<close> with
  \<^verbatim>\<open>COMPRESSION_PFOR_DELTA2D\<close> the copy callback that \<^verbatim>\<open>om_encoder_init\<close> installs is
  \<^verbatim>\<open>om_common_copy32\<close>, whatever the other arguments are. Called for one element of 8
  bytes it transfers the first 4 bytes only, and the gather of a chunk of two 64-bit
  elements fills 8 of the 16 bytes of the chunk buffer.
\<close>

theorem om_encoder_init_int64_copy_callback:
  "compress_copy_callback (snd (om_encoder_init encoder sf ao COMPRESSION_PFOR_DELTA2D
       DATA_TYPE_INT64_ARRAY dims cks n)) = FN_om_common_copy32
   \<and> compress_copy_callback (snd (om_encoder_init encoder sf ao COMPRESSION_PFOR_DELTA2D
       DATA_TYPE_UINT64_ARRAY dims cks n)) = FN_om_common_copy32
   \<and> call_copy_callback lm FN_om_common_copy32 1 sf ao
       [1, 2, 3, 4, 5, 6, 7, 8] 0 [0, 0, 0, 0, 0, 0, 0, 0] 0
     = Some [1, 2, 3, 4, 0, 0, 0, 0]
   \<and> map_option (map_sum id (\<lambda>(s, n). (chunkBuffer_mem s, n)))
       (compress_chunk_gather lm
         \<lparr>arg_encoder = snd (om_encoder_init zero_encoder (FFin 1) (FFin 0)
                                COMPRESSION_PFOR_DELTA2D DATA_TYPE_INT64_ARRAY [2] [2] 1),
          arg_array = [1, 2, 3, 4, 5, 6, 7, 8, 9, 10, 11, 12, 13, 14, 15, 16],
          arg_arrayDimensions = [2], arg_arrayOffset = [0], arg_arrayCount = [2],
          arg_chunkIndex = 0, arg_chunkIndexOffsetInThisArray = 0\<rparr>
         [0, 0, 0, 0, 0, 0, 0, 0, 0, 0, 0, 0, 0, 0, 0, 0])
     = Some (Inr ([1, 2, 3, 4, 5, 6, 7, 8, 0, 0, 0, 0, 0, 0, 0, 0], 2))"
proof -
  have a: "compress_copy_callback (snd (om_encoder_init encoder sf ao COMPRESSION_PFOR_DELTA2D
       DATA_TYPE_INT64_ARRAY dims cks n)) = FN_om_common_copy32"
    by (simp add: om_encoder_init_def init_data_type_def init_compression_def init_pfor_delta2d_def)
  have b: "compress_copy_callback (snd (om_encoder_init encoder sf ao COMPRESSION_PFOR_DELTA2D
       DATA_TYPE_UINT64_ARRAY dims cks n)) = FN_om_common_copy32"
    by (simp add: om_encoder_init_def init_data_type_def init_compression_def init_pfor_delta2d_def)
  have c: "call_copy_callback lm FN_om_common_copy32 1 sf ao
       [1, 2, 3, 4, 5, 6, 7, 8] 0 [0, 0, 0, 0, 0, 0, 0, 0] 0
     = Some [1, 2, 3, 4, 0, 0, 0, 0]"
    by code_simp
  have d: "map_option (map_sum id (\<lambda>(s, n). (chunkBuffer_mem s, n)))
       (compress_chunk_gather lm
         \<lparr>arg_encoder = snd (om_encoder_init zero_encoder (FFin 1) (FFin 0)
                                COMPRESSION_PFOR_DELTA2D DATA_TYPE_INT64_ARRAY [2] [2] 1),
          arg_array = [1, 2, 3, 4, 5, 6, 7, 8, 9, 10, 11, 12, 13, 14, 15, 16],
          arg_arrayDimensions = [2], arg_arrayOffset = [0], arg_arrayCount = [2],
          arg_chunkIndex = 0, arg_chunkIndexOffsetInThisArray = 0\<rparr>
         [0, 0, 0, 0, 0, 0, 0, 0, 0, 0, 0, 0, 0, 0, 0, 0])
     = Some (Inr ([1, 2, 3, 4, 5, 6, 7, 8, 0, 0, 0, 0, 0, 0, 0, 0], 2))"
    by code_simp
  from a b c d show ?thesis by (intro conjI)
qed

section \<open>The XOR predictor on doubles\<close>

text \<open>
  What the encoder does for two doubles in one column: the high half of the first double
  is XORed with its low half, and the second double is not touched.
\<close>

lemma delta2d_encode_xor_double_2_1:
  "delta2d_encode_xor_double 2 1 [a, b]
     = [double_of_ints (ucast a) (ucast (drop_bit 32 a) XOR ucast a), b]"
proof -
  have r: "rev [Suc 0..<2] = [Suc 0]" by (simp add: upt_rec)
  have v: "int_view [a, b] = [ucast a, ucast (drop_bit 32 a), ucast b, ucast (drop_bit 32 b)]"
    by (simp add: int_view_def int_view_of_double_def)
  have e: "delta2d_encode_loop (XOR) 2 1 (int_view [a, b])
      = [ucast a, ucast (drop_bit 32 a) XOR ucast a, ucast b, ucast (drop_bit 32 b)]"
    unfolding v by (simp add: delta2d_encode_loop_def r delta2d_row_def delta2d_step_def)
  show ?thesis
    unfolding delta2d_encode_xor_double_def e
    by (simp add: double_of_ints_int_view)
qed

text \<open>
  C4 fails on the code. \<^verbatim>\<open>delta2d_encode_xor_double\<close> indexes the buffer through an
  \<^verbatim>\<open>int*\<close>, so it XORs 32-bit halves. With \<open>length0 = 2\<close> and \<open>length1 = 1\<close> and the
  doubles 0.1 and 2.0 its single step XORs the low half of the first double into the high
  half of the first double: the first row changes and the second row, which the claim
  says becomes \<open>2.0 XOR 0.1\<close>, stays as it is.
\<close>

theorem delta2d_encode_xor_double_failing_input:
  "delta2d_encode_xor_double 2 1 [0x3FB999999999999A, 0x4000000000000000]
     = [0xA62000039999999A, 0x4000000000000000]
   \<and> (0x4000000000000000 XOR 0x3FB999999999999A :: 64 word) = 0x7FB999999999999A"
proof -
  have "delta2d_encode_xor_double 2 1 [0x3FB999999999999A, 0x4000000000000000]
     = [0xA62000039999999A, 0x4000000000000000]"
    by code_simp
  then show ?thesis by simp
qed

section \<open>Properties of the copy and quantisation stage\<close>

text \<open>
  The loop is defined exactly when it stays inside both arrays and every element
  conversion is defined; it then replaces the first \<open>n\<close> elements of the destination.
\<close>

lemma copy_loop_eq:
  "copy_loop f n src dst =
     (if n \<le> length src \<and> n \<le> length dst \<and> (\<forall>i<n. f (src ! i) \<noteq> None)
      then Some (map (\<lambda>i. the (f (src ! i))) [0..<n] @ drop n dst) else None)"
proof (induction n)
  case 0
  then show ?case by (simp add: copy_loop_def)
next
  case (Suc n)
  have step: "copy_loop f (Suc n) src dst =
      (case copy_loop f n src dst of
         None \<Rightarrow> None
       | Some d \<Rightarrow> if n < length src \<and> n < length d
                    then map_option (\<lambda>v. d[n := v]) (f (src ! n)) else None)"
    by (simp add: copy_loop_def)
  show ?case
  proof (cases "n \<le> length src \<and> n \<le> length dst \<and> (\<forall>i<n. f (src ! i) \<noteq> None)")
    case False
    then have "copy_loop f n src dst = None" using Suc.IH by simp
    moreover have "\<not> (Suc n \<le> length src \<and> Suc n \<le> length dst \<and> (\<forall>i<Suc n. f (src ! i) \<noteq> None))"
      using False by (auto intro: less_SucI)
    ultimately show ?thesis unfolding step by simp
  next
    case True
    define d where "d = map (\<lambda>i. the (f (src ! i))) [0..<n] @ drop n dst"
    have cl: "copy_loop f n src dst = Some d" using Suc.IH True by (simp add: d_def)
    have ld: "length d = length dst" using True by (simp add: d_def)
    show ?thesis
    proof (cases "n < length src \<and> n < length dst \<and> f (src ! n) \<noteq> None")
      case False
      then have "\<not> (Suc n \<le> length src \<and> Suc n \<le> length dst \<and> (\<forall>i<Suc n. f (src ! i) \<noteq> None))"
        by auto
      moreover have "copy_loop f (Suc n) src dst = None"
        unfolding step cl using False ld by auto
      ultimately show ?thesis by simp
    next
      case T2: True
      then obtain v where v: "f (src ! n) = Some v" by auto
      have "d[n := v] = map (\<lambda>i. the (f (src ! i))) [0..<n] @ (drop n dst)[0 := v]"
        by (simp add: d_def list_update_append)
      also have "(drop n dst)[0 := v] = v # drop (Suc n) dst"
        using T2 by (cases "drop n dst") (auto simp: drop_Suc drop_tl)
      finally have "d[n := v] = map (\<lambda>i. the (f (src ! i))) [0..<Suc n] @ drop (Suc n) dst"
        using v by simp
      moreover have "Suc n \<le> length src \<and> Suc n \<le> length dst \<and> (\<forall>i<Suc n. f (src ! i) \<noteq> None)"
        using True T2 by (auto simp: less_Suc_eq)
      ultimately show ?thesis
        unfolding step cl using T2 ld v by simp
    qed
  qed
qed

lemma copy_loop_SomeD:
  assumes "copy_loop f n src dst = Some d"
  shows "length d = length dst" and "\<And>i. i < n \<Longrightarrow> f (src ! i) = Some (d ! i)"
    and "n \<le> length src" and "n \<le> length dst"
proof -
  have c: "n \<le> length src \<and> n \<le> length dst \<and> (\<forall>i<n. f (src ! i) \<noteq> None)"
    and d: "d = map (\<lambda>i. the (f (src ! i))) [0..<n] @ drop n dst"
    using assms unfolding copy_loop_eq by (auto split: if_splits)
  show "length d = length dst" using c by (simp add: d)
  show "n \<le> length src" "n \<le> length dst" using c by simp_all
  fix i assume i: "i < n"
  then have "d ! i = the (f (src ! i))" by (simp add: d nth_append)
  moreover have "f (src ! i) \<noteq> None" using c i by simp
  ultimately show "f (src ! i) = Some (d ! i)" by auto
qed

lemma copy_loop_SomeI:
  assumes "n \<le> length src" "n \<le> length dst" "\<And>i. i < n \<Longrightarrow> f (src ! i) \<noteq> None"
  shows "\<exists>d. copy_loop f n src dst = Some d"
  using assms unfolding copy_loop_eq by simp

lemma int_to_float_INT16_MAX: "int_to_float binary32 INT16_MAX = FFin 32767"
  by code_simp

lemma int_to_float_INT16_MIN: "int_to_float binary32 INT16_MIN = FFin (- 32768)"
  by code_simp

lemma int_to_float_INT32_MAX: "int_to_float binary32 INT32_MAX = FFin 2147483648"
  by code_simp

lemma int_to_float_INT32_MIN: "int_to_float binary32 INT32_MIN = FFin (- 2147483648)"
  by code_simp

lemma int_to_float_INT64_MAX: "int_to_float binary64 INT64_MAX = FFin 9223372036854775808"
  by code_simp

lemma int_to_float_INT64_MIN: "int_to_float binary64 INT64_MIN = FFin (- 9223372036854775808)"
  by code_simp

lemma int_to_float_1: "int_to_float binary32 1 = FFin 1"
  by code_simp

lemma int_to_float_10: "int_to_float binary32 10 = FFin 10"
  by code_simp

text \<open>Clamping between two finite bounds \<open>lo \<le> hi\<close>.\<close>

lemma clamp_cases:
  assumes "lo \<le> hi"
  shows "c_fmax (FFin lo) (c_fmin (FFin hi) r) =
     (case r of
        FNaN \<Rightarrow> FFin hi
      | FInf s \<Rightarrow> (if s then FFin lo else FFin hi)
      | FNegZero \<Rightarrow> (if 0 < hi then (if lo < 0 then FNegZero else FFin lo) else FFin hi)
      | FFin v \<Rightarrow> (if v < hi then (if lo < v then FFin v else FFin lo) else FFin hi))"
  using assms
  by (cases r) (auto simp: c_fmax_def c_fmin_def isnan_def)

lemma trunc_in_range:
  fixes c :: rat
  assumes "of_int lo \<le> c" "c \<le> of_int hi" "lo \<le> 0" "0 \<le> hi"
  shows "lo \<le> (if c < 0 then - \<lfloor>- c\<rfloor> else \<lfloor>c\<rfloor>) \<and> (if c < 0 then - \<lfloor>- c\<rfloor> else \<lfloor>c\<rfloor>) \<le> hi"
proof (cases "c < 0")
  case True
  have t: "(if c < 0 then - \<lfloor>- c\<rfloor> else \<lfloor>c\<rfloor>) = - \<lfloor>- c\<rfloor>" using True by simp
  have "- c \<le> of_int (- lo)" using assms(1) by simp
  then have a: "\<lfloor>- c\<rfloor> \<le> - lo" by (metis floor_mono floor_of_int)
  have "(0::rat) \<le> - c" using True by simp
  then have b: "0 \<le> \<lfloor>- c\<rfloor>" by (simp only: zero_le_floor)
  show ?thesis unfolding t using a b assms(4) by linarith
next
  case False
  have t: "(if c < 0 then - \<lfloor>- c\<rfloor> else \<lfloor>c\<rfloor>) = \<lfloor>c\<rfloor>" using False by simp
  have a: "\<lfloor>c\<rfloor> \<le> hi" using assms(2) by (metis floor_mono floor_of_int)
  have "0 \<le> c" using False by simp
  then have b: "0 \<le> \<lfloor>c\<rfloor>" by (simp only: zero_le_floor)
  show ?thesis unfolding t using a b assms(3) by linarith
qed

lemma float_to_int_clamped:
  fixes v :: rat
  shows "float_to_int n (FFin (max (- (2 ^ (n - 1))) (min (2 ^ (n - 1) - 1) v)))
     = Some (spec_saturate n (FFin v))"
proof -
  define c :: rat where "c = max (- (2 ^ (n - 1))) (min (2 ^ (n - 1) - 1) v)"
  define t where "t = (if c < 0 then - \<lfloor>- c\<rfloor> else \<lfloor>c\<rfloor>)"
  define P :: rat where "P = 2 ^ (n - 1)"
  have p: "(1::int) \<le> 2 ^ (n - 1)" by simp
  have q: "1 \<le> P" by (simp add: P_def)
  have cP: "c = max (- P) (min (P - 1) v)" by (simp add: c_def P_def)
  have "- P \<le> c" "c \<le> P - 1"
    unfolding cP using q by (auto simp: min_def max_def)
  moreover have "of_int (- (2 ^ (n - 1))) = - P" "of_int (2 ^ (n - 1) - 1) = P - 1"
    by (simp_all add: P_def)
  ultimately have lo: "of_int (- (2 ^ (n - 1))) \<le> c" and hi: "c \<le> of_int (2 ^ (n - 1) - 1)"
    by simp_all
  have "- (2 ^ (n - 1)) \<le> t \<and> t \<le> 2 ^ (n - 1) - 1"
    unfolding t_def using lo hi
  proof (rule trunc_in_range)
    show "- (2 ^ (n - 1)) \<le> (0::int)" by simp
    show "(0::int) \<le> 2 ^ (n - 1) - 1" using p by simp
  qed
  then have "float_to_int n (FFin c) = Some t"
    by (simp add: t_def Let_def)
  then show ?thesis
    by (simp add: c_def t_def spec_saturate_def Let_def)
qed

lemma clamp_FFin:
  assumes "lo \<le> hi"
  shows "c_fmax (FFin lo) (c_fmin (FFin hi) (FFin v)) = FFin (max lo (min hi v))"
  using assms by (auto simp: clamp_cases min_def max_def)

lemma clamp_int16:
  "float_to_word (c_fmax (FFin (- 32768)) (c_fmin (FFin 32767) r))
     = Some (word_of_int (spec_saturate 16 r) :: 16 word)"
proof (cases r)
  case (FFin v)
  have "float_to_int 16 (FFin (max (- (2 ^ (16 - 1))) (min (2 ^ (16 - 1) - 1) v)))
     = Some (spec_saturate 16 (FFin v))"
    by (rule float_to_int_clamped)
  then show ?thesis
    unfolding FFin by (simp add: clamp_FFin float_to_word_def)
qed (simp_all add: clamp_cases float_to_word_def spec_saturate_def)

text \<open>The int16 quantisers are defined on every input.\<close>

lemma float_to_int16_eq:
  "float_to_int16 sf ao val =
     Some (if isnan val then word_of_int INT16_MAX
           else word_of_int (spec_saturate 16
                  (c_round (fadd binary32 (fmul binary32 val sf) ao))))"
  by (simp add: float_to_int16_def Let_def int_to_float_INT16_MAX int_to_float_INT16_MIN
        clamp_int16)

lemma float_to_int16_log10_eq:
  "float_to_int16_log10 lm sf ao val =
     Some (if isnan val then word_of_int INT16_MAX
           else word_of_int (spec_saturate 16
                  (c_round (fmul binary32 (log10f lm (fadd binary32 (FFin 1) val)) sf))))"
  by (simp add: float_to_int16_log10_def Let_def int_to_float_INT16_MAX int_to_float_INT16_MIN
        int_to_float_1 clamp_int16)

lemma quantiser_list:
  assumes "len \<le> length src" "len \<le> length dst"
    and nan: "\<And>x. isnan x \<Longrightarrow> f x = Some m"
  shows "if \<forall>i<len. f (src ! i) \<noteq> None
         then \<exists>d. copy_loop f len src dst = Some d \<and> (\<forall>i<len. isnan (src ! i) \<longrightarrow> d ! i = m)
         else copy_loop f len src dst = None"
proof (cases "\<forall>i<len. f (src ! i) \<noteq> None")
  case True
  then obtain d where d: "copy_loop f len src dst = Some d"
    using copy_loop_SomeI[of len src dst f] assms(1,2) by auto
  have "d ! i = m" if "i < len" "isnan (src ! i)" for i
    using copy_loop_SomeD(2)[OF d that(1)] nan[OF that(2)] by simp
  then show ?thesis using True d by simp
next
  case False
  then have c: "\<not> (len \<le> length src \<and> len \<le> length dst \<and> (\<forall>i<len. f (src ! i) \<noteq> None))"
    by blast
  have "copy_loop f len src dst = None"
    unfolding copy_loop_eq using c by (rule if_not_P)
  then show ?thesis using False by (simp only: if_False)
qed

lemma total_quantiser_list:
  assumes "len \<le> length src" "len \<le> length dst"
    and nan: "\<And>x. isnan x \<Longrightarrow> f x = Some m"
    and total: "\<And>x. f x \<noteq> None"
  shows "\<exists>d. copy_loop f len src dst = Some d \<and> (\<forall>i<len. isnan (src ! i) \<longrightarrow> d ! i = m)"
  using quantiser_list[OF assms(1,2), of f m, OF nan] total by simp

lemma dequantiser_list:
  assumes "len \<le> length src" "len \<le> length dst"
    and sentinel: "\<And>q. sint q = m \<Longrightarrow> isnan (g q)"
  shows "\<exists>d. copy_loop (\<lambda>val. Some (g val)) len src dst = Some d
           \<and> (\<forall>i<len. sint (src ! i) = m \<longrightarrow> isnan (d ! i))"
proof -
  obtain d where d: "copy_loop (\<lambda>val. Some (g val)) len src dst = Some d"
    using copy_loop_SomeI[of len src dst "\<lambda>val. Some (g val)"] assms(1,2) by auto
  have "isnan (d ! i)" if "i < len" "sint (src ! i) = m" for i
    using copy_loop_SomeD(2)[OF d that(1)] sentinel[OF that(2)] by simp
  then show ?thesis using d by simp
qed

lemma isnan_NAN [simp]: "isnan NAN"
  by (simp add: isnan_def NAN_def)

text \<open>
  C6. For every length, scale factor and offset: each of the four quantisers writes the
  sentinel of its integer type (\<^verbatim>\<open>INT16_MAX\<close>, \<^verbatim>\<open>INT32_MAX\<close>, \<^verbatim>\<open>INT64_MAX\<close>) for every NaN
  element, and each of the four dequantisers writes a NaN for every element that holds
  the sentinel, so that a NaN comes back as a NaN through each of the four pipelines.
  The calls stay inside their buffers by the assumptions. The two int16 quantisers and
  the dequantisers are then defined on every input; the int32 and int64 quantisers are
  defined exactly when every element conversion is, and a NaN element is never the
  reason for an undefined call.
\<close>

theorem nan_sentinel:
  assumes "len \<le> length src" "len \<le> length dst16" "len \<le> length dst32"
    "len \<le> length dst64" "len \<le> length q16" "len \<le> length q32" "len \<le> length q64"
    "len \<le> length fdst"
  shows
    "(\<exists>d. om_common_copy_float_to_int16 len sf ao src dst16 = Some d
          \<and> (\<forall>i<len. isnan (src ! i) \<longrightarrow> d ! i = word_of_int INT16_MAX))
   \<and> (\<exists>d. om_common_copy_float_to_int16_log10 lm len sf ao src dst16 = Some d
          \<and> (\<forall>i<len. isnan (src ! i) \<longrightarrow> d ! i = word_of_int INT16_MAX))
   \<and> (if \<forall>i<len. float_to_int32 sf ao (src ! i) \<noteq> None
       then \<exists>d. om_common_copy_float_to_int32 len sf ao src dst32 = Some d
              \<and> (\<forall>i<len. isnan (src ! i) \<longrightarrow> d ! i = word_of_int INT32_MAX)
       else om_common_copy_float_to_int32 len sf ao src dst32 = None)
   \<and> (if \<forall>i<len. double_to_int64 sf ao (src ! i) \<noteq> None
       then \<exists>d. om_common_copy_double_to_int64 len sf ao src dst64 = Some d
              \<and> (\<forall>i<len. isnan (src ! i) \<longrightarrow> d ! i = word_of_int INT64_MAX)
       else om_common_copy_double_to_int64 len sf ao src dst64 = None)
   \<and> (\<forall>x. isnan x \<longrightarrow> float_to_int32 sf ao x = Some (word_of_int INT32_MAX)
              \<and> double_to_int64 sf ao x = Some (word_of_int INT64_MAX))
   \<and> (\<exists>d. om_common_copy_int16_to_float len sf ao q16 fdst = Some d
          \<and> (\<forall>i<len. sint (q16 ! i) = INT16_MAX \<longrightarrow> isnan (d ! i)))
   \<and> (\<exists>d. om_common_copy_int32_to_float len sf ao q32 fdst = Some d
          \<and> (\<forall>i<len. sint (q32 ! i) = INT32_MAX \<longrightarrow> isnan (d ! i)))
   \<and> (\<exists>d. om_common_copy_int64_to_double len sf ao q64 fdst = Some d
          \<and> (\<forall>i<len. sint (q64 ! i) = INT64_MAX \<longrightarrow> isnan (d ! i)))
   \<and> (\<exists>d. om_common_copy_int16_to_float_log10 lm len sf ao q16 fdst = Some d
          \<and> (\<forall>i<len. sint (q16 ! i) = INT16_MAX \<longrightarrow> isnan (d ! i)))
   \<and> (\<forall>x. isnan x \<longrightarrow>
          (\<exists>q. float_to_int16 sf ao x = Some q \<and> isnan (int16_to_float sf ao q))
        \<and> (\<exists>q. float_to_int32 sf ao x = Some q \<and> isnan (int32_to_float sf ao q))
        \<and> (\<exists>q. double_to_int64 sf ao x = Some q \<and> isnan (int64_to_double sf ao q))
        \<and> (\<exists>q. float_to_int16_log10 lm sf ao x = Some q
               \<and> isnan (int16_to_float_log10 lm sf ao q)))"
proof -
  have q1: "\<exists>d. om_common_copy_float_to_int16 len sf ao src dst16 = Some d
          \<and> (\<forall>i<len. isnan (src ! i) \<longrightarrow> d ! i = word_of_int INT16_MAX)"
    unfolding om_common_copy_float_to_int16_def
    by (rule total_quantiser_list) (use assms in \<open>simp_all add: float_to_int16_eq\<close>)
  have q2: "\<exists>d. om_common_copy_float_to_int16_log10 lm len sf ao src dst16 = Some d
          \<and> (\<forall>i<len. isnan (src ! i) \<longrightarrow> d ! i = word_of_int INT16_MAX)"
    unfolding om_common_copy_float_to_int16_log10_def
    by (rule total_quantiser_list) (use assms in \<open>simp_all add: float_to_int16_log10_eq\<close>)
  have q3: "if \<forall>i<len. float_to_int32 sf ao (src ! i) \<noteq> None
       then \<exists>d. om_common_copy_float_to_int32 len sf ao src dst32 = Some d
              \<and> (\<forall>i<len. isnan (src ! i) \<longrightarrow> d ! i = word_of_int INT32_MAX)
       else om_common_copy_float_to_int32 len sf ao src dst32 = None"
    unfolding om_common_copy_float_to_int32_def
    by (rule quantiser_list) (use assms in \<open>simp_all add: float_to_int32_def\<close>)
  have q4: "if \<forall>i<len. double_to_int64 sf ao (src ! i) \<noteq> None
       then \<exists>d. om_common_copy_double_to_int64 len sf ao src dst64 = Some d
              \<and> (\<forall>i<len. isnan (src ! i) \<longrightarrow> d ! i = word_of_int INT64_MAX)
       else om_common_copy_double_to_int64 len sf ao src dst64 = None"
    unfolding om_common_copy_double_to_int64_def
    by (rule quantiser_list) (use assms in \<open>simp_all add: double_to_int64_def\<close>)
  have q5: "\<forall>x. isnan x \<longrightarrow> float_to_int32 sf ao x = Some (word_of_int INT32_MAX)
              \<and> double_to_int64 sf ao x = Some (word_of_int INT64_MAX)"
    by (simp add: float_to_int32_def double_to_int64_def)
  have d1: "\<exists>d. om_common_copy_int16_to_float len sf ao q16 fdst = Some d
          \<and> (\<forall>i<len. sint (q16 ! i) = INT16_MAX \<longrightarrow> isnan (d ! i))"
    unfolding om_common_copy_int16_to_float_def
    by (rule dequantiser_list) (use assms in \<open>simp_all add: int16_to_float_def\<close>)
  have d2: "\<exists>d. om_common_copy_int32_to_float len sf ao q32 fdst = Some d
          \<and> (\<forall>i<len. sint (q32 ! i) = INT32_MAX \<longrightarrow> isnan (d ! i))"
    unfolding om_common_copy_int32_to_float_def
    by (rule dequantiser_list) (use assms in \<open>simp_all add: int32_to_float_def\<close>)
  have d3: "\<exists>d. om_common_copy_int64_to_double len sf ao q64 fdst = Some d
          \<and> (\<forall>i<len. sint (q64 ! i) = INT64_MAX \<longrightarrow> isnan (d ! i))"
    unfolding om_common_copy_int64_to_double_def
    by (rule dequantiser_list) (use assms in \<open>simp_all add: int64_to_double_def\<close>)
  have d4: "\<exists>d. om_common_copy_int16_to_float_log10 lm len sf ao q16 fdst = Some d
          \<and> (\<forall>i<len. sint (q16 ! i) = INT16_MAX \<longrightarrow> isnan (d ! i))"
    unfolding om_common_copy_int16_to_float_log10_def
    by (rule dequantiser_list) (use assms in \<open>simp_all add: int16_to_float_log10_def\<close>)
  have s16: "sint (word_of_int INT16_MAX :: 16 word) = INT16_MAX" by simp
  have s32: "sint (word_of_int INT32_MAX :: 32 word) = INT32_MAX" by simp
  have s64: "sint (word_of_int INT64_MAX :: 64 word) = INT64_MAX" by simp
  have rt: "\<forall>x. isnan x \<longrightarrow>
          (\<exists>q. float_to_int16 sf ao x = Some q \<and> isnan (int16_to_float sf ao q))
        \<and> (\<exists>q. float_to_int32 sf ao x = Some q \<and> isnan (int32_to_float sf ao q))
        \<and> (\<exists>q. double_to_int64 sf ao x = Some q \<and> isnan (int64_to_double sf ao q))
        \<and> (\<exists>q. float_to_int16_log10 lm sf ao x = Some q
               \<and> isnan (int16_to_float_log10 lm sf ao q))"
    using s16 s32 s64
    by (simp add: float_to_int16_def float_to_int32_def double_to_int64_def
          float_to_int16_log10_def int16_to_float_def int32_to_float_def int64_to_double_def
          int16_to_float_log10_def)
  from q1 q2 q3 q4 q5 d1 d2 d3 d4 rt show ?thesis by (intro conjI)
qed

theorem nan_sentinel_witness:
  "(\<exists>d. om_common_copy_float_to_int16 2 (FFin 10) (FFin 0) [FNaN, FFin 1] [0, 0] = Some d
        \<and> d ! 0 = 32767)
   \<and> (\<exists>d. om_common_copy_float_to_int16_log10 example_libm 2 (FFin 10) (FFin 0)
             [FNaN, FFin 1] [0, 0] = Some d \<and> d ! 0 = 32767)
   \<and> (\<exists>d. om_common_copy_int16_to_float 2 (FFin 10) (FFin 0) [32767, 5] [FFin 0, FFin 0] = Some d
        \<and> isnan (d ! 0))
   \<and> (\<exists>d. om_common_copy_int32_to_float 2 (FFin 10) (FFin 0) [2147483647, 5] [FFin 0, FFin 0]
             = Some d \<and> isnan (d ! 0))
   \<and> (\<exists>d. om_common_copy_int64_to_double 2 (FFin 10) (FFin 0) [9223372036854775807, 5]
             [FFin 0, FFin 0] = Some d \<and> isnan (d ! 0))
   \<and> (\<exists>d. om_common_copy_int16_to_float_log10 example_libm 2 (FFin 10) (FFin 0) [32767, 5]
             [FFin 0, FFin 0] = Some d \<and> isnan (d ! 0))"
proof -
  have n: "isnan ([FNaN, FFin 1] ! 0)" by (simp add: isnan_def)
  have s16: "sint ([32767, 5 :: 16 word] ! 0) = INT16_MAX" by simp
  have s32: "sint ([2147483647, 5 :: 32 word] ! 0) = INT32_MAX" by simp
  have s64: "sint ([9223372036854775807, 5 :: 64 word] ! 0) = INT64_MAX" by simp
  have z: "(0::nat) < 2" by simp
  note t = nan_sentinel[of 2 "[FNaN, FFin 1]" "[0, 0]" "[0, 0]" "[0, 0]" "[32767, 5]"
      "[2147483647, 5]" "[9223372036854775807, 5]" "[FFin 0, FFin 0]" "FFin 10" "FFin 0"
      example_libm, simplified]
  show ?thesis
    using t n s16 s32 s64 z by (metis word_of_int_numeral)
qed

text \<open>
  C7. The log10 pair ignores \<open>add_offset\<close> in both directions: for every length, scale
  factor and any two offsets the quantiser gives the same result, and so does the
  dequantiser. The quantiser writes \<open>round(log10(1 + x) * scale)\<close> saturated to the int16
  range for every element \<open>x\<close> that is not a NaN, and the dequantiser writes
  \<open>10 ^ (q / scale) - 1\<close> for every element \<open>q\<close> that is not the sentinel.
\<close>

theorem log10_ignores_add_offset:
  "om_common_copy_float_to_int16_log10 lm len sf ao1 src dst
     = om_common_copy_float_to_int16_log10 lm len sf ao2 src dst
   \<and> om_common_copy_int16_to_float_log10 lm len sf ao1 q fdst
     = om_common_copy_int16_to_float_log10 lm len sf ao2 q fdst
   \<and> om_common_copy_float_to_int16_log10 lm len sf ao1 src dst
     = (if len \<le> length src \<and> len \<le> length dst
        then Some (map (\<lambda>i. if isnan (src ! i) then word_of_int INT16_MAX
                     else word_of_int (spec_saturate 16
                            (c_round (fmul binary32
                               (log10f lm (fadd binary32 (FFin 1) (src ! i))) sf))))
                   [0..<len] @ drop len dst)
        else None)
   \<and> om_common_copy_int16_to_float_log10 lm len sf ao1 q fdst
     = (if len \<le> length q \<and> len \<le> length fdst
        then Some (map (\<lambda>i. if sint (q ! i) = INT16_MAX then NAN
                     else fsub binary32
                            (powf lm (FFin 10)
                               (fdiv binary32 (int_to_float binary32 (sint (q ! i))) sf))
                            (FFin 1))
                   [0..<len] @ drop len fdst)
        else None)"
proof -
  have e: "float_to_int16_log10 lm sf ao1 = float_to_int16_log10 lm sf ao2"
    by (rule ext) (simp add: float_to_int16_log10_def)
  have d: "int16_to_float_log10 lm sf ao1 = int16_to_float_log10 lm sf ao2"
    by (rule ext) (simp add: int16_to_float_log10_def)
  have a: "om_common_copy_float_to_int16_log10 lm len sf ao1 src dst
     = om_common_copy_float_to_int16_log10 lm len sf ao2 src dst"
    by (simp add: om_common_copy_float_to_int16_log10_def e)
  have b: "om_common_copy_int16_to_float_log10 lm len sf ao1 q fdst
     = om_common_copy_int16_to_float_log10 lm len sf ao2 q fdst"
    by (simp add: om_common_copy_int16_to_float_log10_def d)
  have c: "om_common_copy_float_to_int16_log10 lm len sf ao1 src dst
     = (if len \<le> length src \<and> len \<le> length dst
        then Some (map (\<lambda>i. if isnan (src ! i) then word_of_int INT16_MAX
                     else word_of_int (spec_saturate 16
                            (c_round (fmul binary32
                               (log10f lm (fadd binary32 (FFin 1) (src ! i))) sf))))
                   [0..<len] @ drop len dst)
        else None)"
    by (simp add: om_common_copy_float_to_int16_log10_def copy_loop_eq float_to_int16_log10_eq)
  have f: "om_common_copy_int16_to_float_log10 lm len sf ao1 q fdst
     = (if len \<le> length q \<and> len \<le> length fdst
        then Some (map (\<lambda>i. if sint (q ! i) = INT16_MAX then NAN
                     else fsub binary32
                            (powf lm (FFin 10)
                               (fdiv binary32 (int_to_float binary32 (sint (q ! i))) sf))
                            (FFin 1))
                   [0..<len] @ drop len fdst)
        else None)"
    by (simp add: om_common_copy_int16_to_float_log10_def copy_loop_eq int16_to_float_log10_def
          int_to_float_1 int_to_float_10)
  from a b c f show ?thesis by (intro conjI)
qed

theorem log10_ignores_add_offset_witness:
  "om_common_copy_float_to_int16_log10 example_libm 3 (FFin 100) (FFin 7)
      [FFin 0, FFin 9, FFin 99] [0, 0, 0] = Some [0, 100, 200]
   \<and> om_common_copy_float_to_int16_log10 example_libm 3 (FFin 100) (FFin 0)
      [FFin 0, FFin 9, FFin 99] [0, 0, 0] = Some [0, 100, 200]
   \<and> om_common_copy_int16_to_float_log10 example_libm 3 (FFin 100) (FFin 7)
      [0, 100, 200] [FFin 0, FFin 0, FFin 0] = Some [FFin 0, FFin 9, FFin 99]
   \<and> om_common_copy_int16_to_float_log10 example_libm 3 (FFin 100) (FFin 0)
      [0, 100, 200] [FFin 0, FFin 0, FFin 0] = Some [FFin 0, FFin 9, FFin 99]"
proof -
  have a: "om_common_copy_float_to_int16_log10 example_libm 3 (FFin 100) (FFin 7)
      [FFin 0, FFin 9, FFin 99] [0, 0, 0] = Some [0, 100, 200]"
    by code_simp
  have b: "om_common_copy_int16_to_float_log10 example_libm 3 (FFin 100) (FFin 7)
      [0, 100, 200] [FFin 0, FFin 0, FFin 0] = Some [FFin 0, FFin 9, FFin 99]"
    by code_simp
  note t = log10_ignores_add_offset[of example_libm 3 "FFin 100" "FFin 7"
      "[FFin 0, FFin 9, FFin 99]" "[0, 0, 0]" "FFin 0" "[0, 100, 200]"
      "[FFin 0, FFin 0, FFin 0]"]
  have a': "om_common_copy_float_to_int16_log10 example_libm 3 (FFin 100) (FFin 0)
      [FFin 0, FFin 9, FFin 99] [0, 0, 0] = Some [0, 100, 200]"
    using a unfolding t[THEN conjunct1] .
  have b': "om_common_copy_int16_to_float_log10 example_libm 3 (FFin 100) (FFin 0)
      [0, 100, 200] [FFin 0, FFin 0, FFin 0] = Some [FFin 0, FFin 9, FFin 99]"
    using b unfolding t[THEN conjunct2, THEN conjunct1] .
  from a a' b b' show ?thesis by (intro conjI)
qed

text \<open>
  Where the quantisers saturate. A rounded value of at least 32767 gives \<^verbatim>\<open>INT16_MAX\<close> in
  the int16 quantiser, which the dequantiser reads as the NaN sentinel. In the int32 and
  int64 quantisers the upper bound of the clamp is \<^verbatim>\<open>(float)INT32_MAX\<close> and
  \<^verbatim>\<open>(double)INT64_MAX\<close>, which are \<open>2 ^ 31\<close> and \<open>2 ^ 63\<close>: a rounded value that reaches
  them is clamped to a value outside the range of the integer type, and the conversion
  is undefined.
\<close>

lemma float_to_int16_saturates:
  assumes "\<not> isnan x"
    and "c_round (fadd binary32 (fmul binary32 x sf) ao) = FInf False
         \<or> (\<exists>v. c_round (fadd binary32 (fmul binary32 x sf) ao) = FFin v \<and> 32767 \<le> v)"
  shows "float_to_int16 sf ao x = Some (word_of_int INT16_MAX)
    \<and> isnan (int16_to_float sf' ao' (word_of_int INT16_MAX))"
proof -
  have "spec_saturate 16 (c_round (fadd binary32 (fmul binary32 x sf) ao)) = 32767"
    using assms(2) by (auto simp: spec_saturate_def Let_def min_def max_def)
  then show ?thesis
    using assms(1) by (simp add: float_to_int16_eq int16_to_float_def)
qed

lemma float_to_int32_undefined:
  assumes "\<not> isnan x"
    and "c_round (fadd binary32 (fmul binary32 x sf) ao) = FNaN
         \<or> c_round (fadd binary32 (fmul binary32 x sf) ao) = FInf False
         \<or> (\<exists>v. c_round (fadd binary32 (fmul binary32 x sf) ao) = FFin v \<and> 2147483648 \<le> v)"
  shows "float_to_int32 sf ao x = None"
  using assms
  by (auto simp: float_to_int32_def Let_def int_to_float_INT32_MAX int_to_float_INT32_MIN
        clamp_cases float_to_word_def)

lemma double_to_int64_undefined:
  assumes "\<not> isnan x"
    and "c_round (fadd binary64 (fmul binary64 x (float_to_double sf)) (float_to_double ao)) = FNaN
         \<or> c_round (fadd binary64 (fmul binary64 x (float_to_double sf)) (float_to_double ao))
             = FInf False
         \<or> (\<exists>v. c_round (fadd binary64 (fmul binary64 x (float_to_double sf)) (float_to_double ao))
                 = FFin v \<and> 9223372036854775808 \<le> v)"
  shows "double_to_int64 sf ao x = None"
  using assms
  by (auto simp: double_to_int64_def Let_def int_to_float_INT64_MAX int_to_float_INT64_MIN
        clamp_cases float_to_word_def)

text \<open>
  C9 fails on the code for the int32 and int64 paths. The finite float 3000000000 with
  scale factor 1 and offset 0 is clamped to \<^verbatim>\<open>(float)INT32_MAX\<close>, which is 2147483648, and
  the cast of that value to \<^verbatim>\<open>int32_t\<close> is undefined: the quantiser does not give
  \<^verbatim>\<open>INT32_MAX\<close>. The same holds for the double \<open>10 ^ 19\<close> and \<^verbatim>\<open>int64_t\<close>. On the int16 path
  the float 40000 does give \<^verbatim>\<open>INT16_MAX\<close>, which the dequantiser decodes as NaN, as the
  claim says.
\<close>

theorem int32_int64_saturation_undefined:
  "int_to_float binary32 INT32_MAX = FFin 2147483648
   \<and> decode_float 0x4F32D05E = FFin 3000000000
   \<and> float_to_int32 (FFin 1) (FFin 0) (decode_float 0x4F32D05E) = None
   \<and> om_common_copy_float_to_int32 1 (FFin 1) (FFin 0) [decode_float 0x4F32D05E] [0] = None
   \<and> int_to_float binary64 INT64_MAX = FFin 9223372036854775808
   \<and> decode_double 0x43E158E460913D00 = FFin 10000000000000000000
   \<and> double_to_int64 (FFin 1) (FFin 0) (decode_double 0x43E158E460913D00) = None
   \<and> om_common_copy_double_to_int64 1 (FFin 1) (FFin 0) [decode_double 0x43E158E460913D00] [0]
       = None
   \<and> decode_float 0x471C4000 = FFin 40000
   \<and> om_common_copy_float_to_int16 1 (FFin 1) (FFin 0) [decode_float 0x471C4000] [0]
       = Some [32767]
   \<and> om_common_copy_int16_to_float 1 (FFin 1) (FFin 0) [32767] [FFin 0] = Some [FNaN]"
proof -
  have a: "decode_float 0x4F32D05E = FFin 3000000000" by code_simp
  have b: "float_to_int32 (FFin 1) (FFin 0) (decode_float 0x4F32D05E) = None" by code_simp
  have c: "om_common_copy_float_to_int32 1 (FFin 1) (FFin 0) [decode_float 0x4F32D05E] [0] = None"
    by code_simp
  have d: "decode_double 0x43E158E460913D00 = FFin 10000000000000000000" by code_simp
  have e: "double_to_int64 (FFin 1) (FFin 0) (decode_double 0x43E158E460913D00) = None"
    by code_simp
  have f: "om_common_copy_double_to_int64 1 (FFin 1) (FFin 0)
             [decode_double 0x43E158E460913D00] [0] = None"
    by code_simp
  have g: "decode_float 0x471C4000 = FFin 40000" by code_simp
  have h: "om_common_copy_float_to_int16 1 (FFin 1) (FFin 0) [decode_float 0x471C4000] [0]
       = Some [32767]"
    by code_simp
  have i: "om_common_copy_int16_to_float 1 (FFin 1) (FFin 0) [32767] [FFin 0] = Some [FNaN]"
    by code_simp
  from int_to_float_INT32_MAX a b c int_to_float_INT64_MAX d e f g h i
  show ?thesis by (intro conjI)
qed

section \<open>Properties of the chunk gather\<close>

text \<open>
  C5 fails on the code. One dimension, \<open>dimensions = [4]\<close>, \<open>chunks = [4]\<close>, 8-bit
  elements; the source array has 6 elements and the sub-region is its last 4
  (\<open>arrayOffset = [2]\<close>, \<open>arrayCount = [4]\<close>, \<open>arrayDimensions = [6]\<close>), which is the chunk 0.
  After the first copy the read position reaches the end of the array, the expression
  \<^verbatim>\<open>(readCoordinate / rollingMultiplyTargetCube) % arrayDimensions[i] - arrayOffset[i]\<close>
  wraps around below zero, the loop does not see the end of the chunk, and the second
  iteration fails the assertion of line 282.
\<close>

theorem compress_chunk_assertion_fails:
  "fst (om_encoder_init zero_encoder (FFin 1) (FFin 0) COMPRESSION_PFOR_DELTA2D
          DATA_TYPE_INT8_ARRAY [4] [4] 1) = ERROR_OK
   \<and> om_encoder_compress_chunk lm entropy
        (snd (om_encoder_init zero_encoder (FFin 1) (FFin 0) COMPRESSION_PFOR_DELTA2D
                DATA_TYPE_INT8_ARRAY [4] [4] 1))
        [10, 11, 12, 13, 14, 15] [6] [2] [4] 0 0 out [0, 0, 0, 0]
     = Some (Inl (AssertionFailed 282))"
proof -
  have a: "fst (om_encoder_init zero_encoder (FFin 1) (FFin 0) COMPRESSION_PFOR_DELTA2D
          DATA_TYPE_INT8_ARRAY [4] [4] 1) = ERROR_OK"
    by code_simp
  have b: "om_encoder_compress_chunk lm entropy
        (snd (om_encoder_init zero_encoder (FFin 1) (FFin 0) COMPRESSION_PFOR_DELTA2D
                DATA_TYPE_INT8_ARRAY [4] [4] 1))
        [10, 11, 12, 13, 14, 15] [6] [2] [4] 0 0 out [0, 0, 0, 0]
     = Some (Inl (AssertionFailed 282))"
    by code_simp
  from a b show ?thesis by (intro conjI)
qed

text \<open>
  C1 fails on the code, from the same wrap-around. \<open>dimensions = [2, 4]\<close>,
  \<open>chunks = [2, 3]\<close>, 8-bit elements; the source array is 2 by 6 with the elements
  0 to 11, the sub-region is its columns 2 to 5 (\<open>arrayOffset = [0, 2]\<close>,
  \<open>arrayCount = [2, 4]\<close>), and chunk 1 is the last column of the sub-region: the elements
  5 and 11. The gather returns without a failed assertion and has put the elements 5 and
  6 into the chunk buffer; the call on the stand-alone sub-region gives 5 and 11.
\<close>

theorem compress_chunk_gather_edge_subregion:
  "map_option (map_sum id (\<lambda>(s, n). (chunkBuffer_mem s, n)))
     (compress_chunk_gather lm
       \<lparr>arg_encoder = snd (om_encoder_init zero_encoder (FFin 1) (FFin 0)
                              COMPRESSION_PFOR_DELTA2D DATA_TYPE_INT8_ARRAY [2, 4] [2, 3] 2),
        arg_array = [0, 1, 2, 3, 4, 5, 6, 7, 8, 9, 10, 11],
        arg_arrayDimensions = [2, 6], arg_arrayOffset = [0, 2], arg_arrayCount = [2, 4],
        arg_chunkIndex = 1, arg_chunkIndexOffsetInThisArray = 1\<rparr>
       [0, 0])
     = Some (Inr ([5, 6], 2))
   \<and> map_option (map_sum id (\<lambda>(s, n). (chunkBuffer_mem s, n)))
     (compress_chunk_gather lm
       \<lparr>arg_encoder = snd (om_encoder_init zero_encoder (FFin 1) (FFin 0)
                              COMPRESSION_PFOR_DELTA2D DATA_TYPE_INT8_ARRAY [2, 4] [2, 3] 2),
        arg_array = [2, 3, 4, 5, 8, 9, 10, 11],
        arg_arrayDimensions = [2, 4], arg_arrayOffset = [0, 0], arg_arrayCount = [2, 4],
        arg_chunkIndex = 1, arg_chunkIndexOffsetInThisArray = 1\<rparr>
       [0, 0])
     = Some (Inr ([5, 11], 2))"
proof -
  have a: "map_option (map_sum id (\<lambda>(s, n). (chunkBuffer_mem s, n)))
     (compress_chunk_gather lm
       \<lparr>arg_encoder = snd (om_encoder_init zero_encoder (FFin 1) (FFin 0)
                              COMPRESSION_PFOR_DELTA2D DATA_TYPE_INT8_ARRAY [2, 4] [2, 3] 2),
        arg_array = [0, 1, 2, 3, 4, 5, 6, 7, 8, 9, 10, 11],
        arg_arrayDimensions = [2, 6], arg_arrayOffset = [0, 2], arg_arrayCount = [2, 4],
        arg_chunkIndex = 1, arg_chunkIndexOffsetInThisArray = 1\<rparr>
       [0, 0])
     = Some (Inr ([5, 6], 2))"
    by code_simp
  have b: "map_option (map_sum id (\<lambda>(s, n). (chunkBuffer_mem s, n)))
     (compress_chunk_gather lm
       \<lparr>arg_encoder = snd (om_encoder_init zero_encoder (FFin 1) (FFin 0)
                              COMPRESSION_PFOR_DELTA2D DATA_TYPE_INT8_ARRAY [2, 4] [2, 3] 2),
        arg_array = [2, 3, 4, 5, 8, 9, 10, 11],
        arg_arrayDimensions = [2, 4], arg_arrayOffset = [0, 0], arg_arrayCount = [2, 4],
        arg_chunkIndex = 1, arg_chunkIndexOffsetInThisArray = 1\<rparr>
       [0, 0])
     = Some (Inr ([5, 11], 2))"
    by code_simp
  from a b show ?thesis by (intro conjI)
qed

text \<open>
  Away from the edge of the source array the gather is right: scenario D of the spec,
  the 4 by 4 slab at offset (2, 3) of a 10 by 10 array with the elements 0 to 99.
\<close>

lemma compress_chunk_gather_scenario_D:
  "map_option (map_sum id (\<lambda>(s, n). (chunkBuffer_mem s, n)))
     (compress_chunk_gather lm
       \<lparr>arg_encoder = snd (om_encoder_init zero_encoder (FFin 1) (FFin 0)
                              COMPRESSION_PFOR_DELTA2D DATA_TYPE_INT8_ARRAY [4, 4] [4, 4] 2),
        arg_array = map word_of_nat [0..<100],
        arg_arrayDimensions = [10, 10], arg_arrayOffset = [2, 3], arg_arrayCount = [4, 4],
        arg_chunkIndex = 0, arg_chunkIndexOffsetInThisArray = 0\<rparr>
       (replicate 16 0))
     = Some (Inr ([23, 24, 25, 26, 33, 34, 35, 36, 43, 44, 45, 46, 53, 54, 55, 56], 16))"
  by code_simp

text \<open>
  Scenario A of the spec: \<open>dimensions = chunks = [2, 3]\<close>, 16-bit integers, the input
  \<open>[[1, 2, 3], [4, 6, 8]]\<close>. The gather copies the six elements, the predictor turns the
  second row into \<open>[3, 4, 5]\<close>, and the entropy coder (here a stand-in that appends the
  buffer to the output) is called with the element count 6.
\<close>

lemma scenario_A_gather:
  "map_option (map_sum id (\<lambda>(s, n). (chunkBuffer_mem s, n, lengthLast s)))
     (compress_chunk_gather lm
       \<lparr>arg_encoder = snd (om_encoder_init zero_encoder (FFin 1) (FFin 0)
                              COMPRESSION_PFOR_DELTA2D DATA_TYPE_INT16_ARRAY [2, 3] [2, 3] 2),
        arg_array = [1, 0, 2, 0, 3, 0, 4, 0, 6, 0, 8, 0],
        arg_arrayDimensions = [2, 3], arg_arrayOffset = [0, 0], arg_arrayCount = [2, 3],
        arg_chunkIndex = 0, arg_chunkIndexOffsetInThisArray = 0\<rparr>
       (replicate 12 0))
     = Some (Inr ([1, 0, 2, 0, 3, 0, 4, 0, 6, 0, 8, 0], 6, 3))"
  by code_simp

lemma scenario_A_filter:
  "call_filter_callback FN_delta2d_encode16 2 3 [1, 0, 2, 0, 3, 0, 4, 0, 6, 0, 8, 0]
     = Some [1, 0, 2, 0, 3, 0, 3, 0, 4, 0, 5, 0]"
  by code_simp

lemma scenario_A:
  "om_encoder_compress_chunk lm (\<lambda>cb buf n out. (2 * n, out @ buf))
       (snd (om_encoder_init zero_encoder (FFin 1) (FFin 0)
                              COMPRESSION_PFOR_DELTA2D DATA_TYPE_INT16_ARRAY [2, 3] [2, 3] 2))
       [1, 0, 2, 0, 3, 0, 4, 0, 6, 0, 8, 0] [2, 3] [0, 0] [2, 3] 0 0 [] (replicate 12 0)
   = Some (Inr (12, [1, 0, 2, 0, 3, 0, 3, 0, 4, 0, 5, 0], [1, 0, 2, 0, 3, 0, 3, 0, 4, 0, 5, 0]))"
  by code_simp

end
